theory Spec2Isabelle
  imports Complex_Main "HOL-Library.Word"
begin

section \<open>Numbers and library functions\<close>

text \<open>
  The controller computes in C++ \<^verbatim>\<open>double\<close>. The embedding idealises a double as a
  \<^typ>\<open>real\<close>: no rounding, no infinities, no NaN. The one place where the idealisation
  would silently invent a value, the unguarded division \<^verbatim>\<open>resolution_ / vel_x\<close> of the
  rollout, is modelled as an explicit outcome of its own (\<open>DivisionByZero\<close> below). The
  square root of \<^verbatim>\<open>rotateTowards\<close> is the real one; a negative \<^verbatim>\<open>acc_lim_theta\<close>, whose root
  is NaN in C++, is outside the idealisation.
  \<^verbatim>\<open>size_t\<close> is a 64-bit word where the source subtracts from a size.
\<close>

text \<open>\<^verbatim>\<open>double sign(double x) { return x < 0.0 ? -1.0 : 1.0; }\<close>\<close>

definition sign :: "real \<Rightarrow> real" where
  "sign x = (if x < 0 then - 1 else 1)"

text \<open>\<^verbatim>\<open>std::hypot\<close>, \<^verbatim>\<open>std::atan2\<close> of \<^verbatim>\<open><cmath>\<close>, on reals (no signed zero).\<close>

definition hypot :: "real \<Rightarrow> real \<Rightarrow> real" where
  "hypot x y = sqrt (x\<^sup>2 + y\<^sup>2)"

definition atan2 :: "real \<Rightarrow> real \<Rightarrow> real" where
  "atan2 y x =
     (if 0 < x then arctan (y / x)
      else if x < 0 then (if 0 \<le> y then arctan (y / x) + pi else arctan (y / x) - pi)
      else if 0 < y then pi / 2
      else if y < 0 then - (pi / 2)
      else 0)"

section \<open>Messages\<close>

text \<open>
  \<^verbatim>\<open>geometry_msgs::PoseStamped\<close>: the frame of the header, the position and the
  orientation quaternion (\<^verbatim>\<open>pose.pose.position.x\<close> is \<open>position_x\<close>, and so on). A
  default-constructed message is all zero with an empty frame.
  \<^verbatim>\<open>geometry_msgs::Twist\<close>: the six velocity components.
\<close>

record pose_stamped =
  frame_id :: string
  position_x :: real
  position_y :: real
  position_z :: real
  orientation_x :: real
  orientation_y :: real
  orientation_z :: real
  orientation_w :: real

definition default_pose :: pose_stamped where
  "default_pose = \<lparr>frame_id = [], position_x = 0, position_y = 0, position_z = 0,
     orientation_x = 0, orientation_y = 0, orientation_z = 0, orientation_w = 0\<rparr>"

record twist =
  linear_x :: real
  linear_y :: real
  linear_z :: real
  angular_x :: real
  angular_y :: real
  angular_z :: real

text \<open>
  \<^verbatim>\<open>tf2::getYaw\<close> (tf2/impl/utils.h, a library outside this repository), applied to the
  orientation of a pose: the yaw of the quaternion, with the two gimbal-lock cases.
\<close>

definition getYaw :: "pose_stamped \<Rightarrow> real" where
  "getYaw p =
     (let x = orientation_x p; y = orientation_y p; z = orientation_z p; w = orientation_w p;
          sqx = x * x; sqy = y * y; sqz = z * z; sqw = w * w;
          sarg = - 2 * (x * z - w * y) / (sqx + sqy + sqz + sqw)
      in if sarg \<le> - 0.99999 then - 2 * atan2 y x
         else if sarg \<ge> 0.99999 then 2 * atan2 y x
         else atan2 (2 * (x * y + w * z)) (sqw + sqx - sqy - sqz))"

section \<open>Controller state and collaborators\<close>

text \<open>
  \<^verbatim>\<open>GracefulController\<close> (the steering law, package graceful_controller): the eight
  constructor arguments in the order \<^verbatim>\<open>reconfigureCallback\<close> passes them;
  \<^verbatim>\<open>setVelocityLimits\<close> overwrites three of them.
\<close>

record controller =
  gc_k1 :: real
  gc_k2 :: real
  gc_min_vel_x :: real
  gc_max_vel_x :: real
  gc_acc_lim_x :: real
  gc_max_vel_theta :: real
  gc_beta :: real
  gc_lambda :: real

definition setVelocityLimits :: "controller \<Rightarrow> real \<Rightarrow> real \<Rightarrow> real \<Rightarrow> controller" where
  "setVelocityLimits c min_x max_x max_theta =
     c\<lparr>gc_min_vel_x := min_x, gc_max_vel_x := max_x, gc_max_vel_theta := max_theta\<rparr>"

text \<open>
  The fields of \<^verbatim>\<open>base_local_planner::LocalPlannerLimits\<close> that the controller reads
  back through \<^verbatim>\<open>planner_util_.getCurrentLimits()\<close>.
\<close>

record limits =
  lim_max_vel_x :: real
  lim_min_vel_x :: real
  lim_max_vel_theta :: real
  lim_acc_lim_x :: real
  lim_acc_lim_theta :: real

text \<open>
  The members of \<^verbatim>\<open>GracefulControllerROS\<close> (the trailing underscore of the source is
  dropped). \<open>current_limits\<close> is what \<^verbatim>\<open>planner_util_.getCurrentLimits()\<close> returns and
  \<open>odom_topic\<close> what \<^verbatim>\<open>odom_helper_.getOdomTopic()\<close> returns.
\<close>

record gc_state =
  initialized :: bool
  has_new_path :: bool
  max_vel_x :: real
  min_in_place_vel_theta :: real
  xy_goal_tolerance :: real
  yaw_goal_tolerance :: real
  max_lookahead :: real
  resolution :: real
  acc_dt :: real
  initial_rotate_tolerance :: real
  robot_pose :: pose_stamped
  the_controller :: controller
  current_limits :: limits
  odom_topic :: string

text \<open>
  The collaborators of one call, as the values they return during that call: the pose
  source, the plan transformer, the transform buffer (\<open>None\<close> is the
  \<^verbatim>\<open>tf2::TransformException\<close>), the odometry helper (it stores the angular velocity as
  the yaw of a quaternion), the steering law's \<^verbatim>\<open>approach\<close> (\<open>None\<close> is its
  \<^verbatim>\<open>false\<close>), the costmap (\<^verbatim>\<open>unsigned\<close> cell indices, \<^verbatim>\<open>unsigned char\<close> costs), the
  \<^verbatim>\<open>angles\<close> library and \<^verbatim>\<open>LocalPlannerUtil::setPlan\<close>. \<open>'tf\<close> is the type of a rigid
  transform.
\<close>

record 'tf env =
  getRobotPose :: "pose_stamped option"
  getLocalPlan :: "pose_stamped \<Rightarrow> pose_stamped list option"
  getGoal :: "pose_stamped option"
  lookupTransform :: "'tf option"
  tf_inverse :: "'tf \<Rightarrow> 'tf"
  doTransform :: "pose_stamped \<Rightarrow> 'tf \<Rightarrow> pose_stamped"
  getBaseFrameID :: string
  getRobotVel :: pose_stamped
  approach :: "controller \<Rightarrow> real \<Rightarrow> real \<Rightarrow> real \<Rightarrow> (real \<times> real) option"
  worldToMap :: "real \<Rightarrow> real \<Rightarrow> (32 word \<times> 32 word) option"
  getCost :: "32 word \<Rightarrow> 32 word \<Rightarrow> 8 word"
  getResolution :: real
  shortest_angular_distance :: "real \<Rightarrow> real \<Rightarrow> real"
  util_setPlan :: "pose_stamped list \<Rightarrow> bool"

text \<open>\<^verbatim>\<open>costmap_2d::INSCRIBED_INFLATED_OBSTACLE\<close> (costmap_2d/cost_values.h).\<close>

definition INSCRIBED_INFLATED_OBSTACLE :: "8 word" where
  "INSCRIBED_INFLATED_OBSTACLE = 253"

section \<open>reconfigureCallback\<close>

text \<open>The parameters of \<^verbatim>\<open>GracefulControllerConfig\<close> that reach the modelled state.\<close>

record config =
  cfg_max_vel_x :: real
  cfg_min_vel_x :: real
  cfg_max_vel_theta :: real
  cfg_acc_lim_x :: real
  cfg_acc_lim_theta :: real
  cfg_xy_goal_tolerance :: real
  cfg_yaw_goal_tolerance :: real
  cfg_min_in_place_vel_theta :: real
  cfg_max_lookahead :: real
  cfg_initial_rotate_tolerance :: real
  cfg_k1 :: real
  cfg_k2 :: real
  cfg_beta :: real
  cfg_lambda :: real

definition reconfigureCallback :: "'tf env \<Rightarrow> config \<Rightarrow> gc_state \<Rightarrow> gc_state" where
  "reconfigureCallback e config s =
     s\<lparr>current_limits :=
         \<lparr>lim_max_vel_x = cfg_max_vel_x config, lim_min_vel_x = cfg_min_vel_x config,
          lim_max_vel_theta = cfg_max_vel_theta config, lim_acc_lim_x = cfg_acc_lim_x config,
          lim_acc_lim_theta = cfg_acc_lim_theta config\<rparr>,
       xy_goal_tolerance := cfg_xy_goal_tolerance config,
       yaw_goal_tolerance := cfg_yaw_goal_tolerance config,
       min_in_place_vel_theta := cfg_min_in_place_vel_theta config,
       max_lookahead := cfg_max_lookahead config,
       initial_rotate_tolerance := cfg_initial_rotate_tolerance config,
       resolution := getResolution e,
       max_vel_x := cfg_max_vel_x config,
       the_controller :=
         \<lparr>gc_k1 = cfg_k1 config, gc_k2 = cfg_k2 config, gc_min_vel_x = cfg_min_vel_x config,
          gc_max_vel_x = cfg_max_vel_x config, gc_acc_lim_x = cfg_acc_lim_x config,
          gc_max_vel_theta = cfg_max_vel_theta config, gc_beta = cfg_beta config,
          gc_lambda = cfg_lambda config\<rparr>\<rparr>"

section \<open>rotateTowards\<close>

text \<open>
  Lines 478 to 491: the angular velocity bound, the configured one, or with odometry the
  acceleration-limited one raised to the in-place minimum.
\<close>

definition rotate_max_vel_th :: "'tf env \<Rightarrow> gc_state \<Rightarrow> real" where
  "rotate_max_vel_th e s =
     (let limits = current_limits s;
          max_vel_th = lim_max_vel_theta limits
      in if odom_topic s \<noteq> [] then
           (let robot_velocity = getRobotVel e;
                abs_vel = \<bar>getYaw robot_velocity\<bar>;
                acc_limited = abs_vel + lim_acc_lim_theta limits * acc_dt s;
                max_vel_th = min max_vel_th acc_limited;
                max_vel_th = max max_vel_th (min_in_place_vel_theta s)
            in max_vel_th)
         else max_vel_th)"

text \<open>The yaw error of lines 463 to 474.\<close>

definition rotate_yaw :: "pose_stamped \<Rightarrow> real" where
  "rotate_yaw pose =
     (if hypot (position_x pose) (position_y pose) > 0.5
      then atan2 (position_y pose) (position_x pose)
      else getYaw pose)"

text \<open>
  \<^verbatim>\<open>rotateTowards(pose, cmd_vel)\<close>: the returned error and the command, of which only
  \<^verbatim>\<open>linear.x\<close> and \<^verbatim>\<open>angular.z\<close> are written.
\<close>

definition rotateTowards :: "'tf env \<Rightarrow> gc_state \<Rightarrow> pose_stamped \<Rightarrow> twist \<Rightarrow> real \<times> twist" where
  "rotateTowards e s pose cmd_vel =
     (let yaw = rotate_yaw pose;
          limits = current_limits s;
          max_vel_th = rotate_max_vel_th e s;
          cmd_vel = cmd_vel\<lparr>linear_x := 0\<rparr>;
          cmd_vel = cmd_vel\<lparr>angular_z := sqrt (2 * lim_acc_lim_theta limits * \<bar>yaw\<bar>)\<rparr>;
          cmd_vel = cmd_vel\<lparr>angular_z :=
            sign yaw * min max_vel_th (max (min_in_place_vel_theta s) (angular_z cmd_vel))\<rparr>
      in (yaw, cmd_vel))"

section \<open>isGoalReached\<close>


section \<open>setPlan\<close>

text \<open>
  Reading \<^verbatim>\<open>back()\<close> of an empty vector and indexing a vector out of range are undefined
  in C++; the embedding returns them as values.
\<close>

datatype undefined_behaviour = BackOfEmptyVector | IndexOutOfRange

text \<open>\<^verbatim>\<open>oriented_plan.size() - 1\<close>, in \<^verbatim>\<open>size_t\<close>.\<close>

definition loop_bound :: "pose_stamped list \<Rightarrow> 64 word" where
  "loop_bound oriented_plan = word_of_nat (length oriented_plan) - 1"

text \<open>The body of the loop of lines 430 to 438, at an index inside both vectors.\<close>

definition point_at_next :: "pose_stamped list \<Rightarrow> nat \<Rightarrow> pose_stamped list \<Rightarrow> pose_stamped list" where
  "point_at_next plan i oriented_plan =
     (let oriented_plan = oriented_plan[i := plan ! i];
          dx = position_x (plan ! (i + 1)) - position_x (plan ! i);
          dy = position_y (plan ! (i + 1)) - position_y (plan ! i);
          yaw = atan2 dy dx;
          oriented_plan = oriented_plan[i := (oriented_plan ! i)\<lparr>orientation_z := sin (yaw / 2)\<rparr>];
          oriented_plan = oriented_plan[i := (oriented_plan ! i)\<lparr>orientation_w := cos (yaw / 2)\<rparr>]
      in oriented_plan)"

function orient_loop ::
  "pose_stamped list \<Rightarrow> 64 word \<Rightarrow> pose_stamped list \<Rightarrow> undefined_behaviour + pose_stamped list" where
  "orient_loop plan i oriented_plan =
     (if i < loop_bound oriented_plan then
        (if unat i < length oriented_plan \<and> unat i + 1 < length plan
         then orient_loop plan (i + 1) (point_at_next plan (unat i) oriented_plan)
         else Inl IndexOutOfRange)
      else Inr oriented_plan)"
  by pat_completeness auto
termination
proof (relation "measure (\<lambda>(plan, i, oriented_plan). unat (loop_bound oriented_plan - i))")
  show "wf (measure (\<lambda>(plan, i, oriented_plan). unat (loop_bound oriented_plan - i)))"
    by simp
next
  fix plan :: "pose_stamped list" and i :: "64 word" and oriented_plan :: "pose_stamped list"
  assume lt: "i < loop_bound oriented_plan"
  have same: "loop_bound (point_at_next plan (unat i) oriented_plan) = loop_bound oriented_plan"
    by (simp add: loop_bound_def point_at_next_def Let_def)
  have "unat (loop_bound oriented_plan - (i + 1)) < unat (loop_bound oriented_plan - i)"
    using lt by unat_arith
  then show "((plan, i + 1, point_at_next plan (unat i) oriented_plan), (plan, i, oriented_plan))
      \<in> measure (\<lambda>(plan, i, oriented_plan). unat (loop_bound oriented_plan - i))"
    by (simp add: same)
qed

declare orient_loop.simps [simp del]

text \<open>Lines 422 to 438: the resized vector, its last element, the loop.\<close>

definition orient_plan :: "pose_stamped list \<Rightarrow> undefined_behaviour + pose_stamped list" where
  "orient_plan plan =
     (let oriented_plan = replicate (length plan) default_pose
      in if oriented_plan = [] \<or> plan = [] then Inl BackOfEmptyVector
         else orient_loop plan 0 (oriented_plan[length oriented_plan - 1 := last plan]))"

definition setPlan ::
  "'tf env \<Rightarrow> gc_state \<Rightarrow> pose_stamped list \<Rightarrow> undefined_behaviour + (bool \<times> gc_state)" where
  "setPlan e s plan =
     (if \<not> initialized s then Inr (False, s)
      else case orient_plan plan of
        Inl ub \<Rightarrow> Inl ub
      | Inr oriented_plan \<Rightarrow>
          if util_setPlan e oriented_plan then Inr (True, s\<lparr>has_new_path := True\<rparr>)
          else Inr (False, s))"

section \<open>computeVelocityCommands\<close>

subsection \<open>The velocity limit pushed into the steering law\<close>

text \<open>Lines 271 to 281. Without an odometry topic the steering law is left as it is.\<close>

definition configure_max_velocity :: "'tf env \<Rightarrow> gc_state \<Rightarrow> gc_state" where
  "configure_max_velocity e s =
     (if odom_topic s \<noteq> [] then
        (let limits = current_limits s;
             robot_velocity = getRobotVel e;
             mvx = position_x robot_velocity + lim_acc_lim_x limits * acc_dt s;
             mvx = min mvx (max_vel_x s);
             mvx = max mvx (lim_min_vel_x limits)
         in s\<lparr>the_controller :=
              setVelocityLimits (the_controller s) (lim_min_vel_x limits) mvx
                (lim_max_vel_theta limits)\<rparr>)
      else s)"

subsection \<open>The rollout\<close>

text \<open>
  Lines 288 to 307: the lookahead pose seen from the last simulated pose, and the error
  angle.
\<close>

definition rollout_error :: "pose_stamped \<Rightarrow> pose_stamped list \<Rightarrow> pose_stamped \<times> real" where
  "rollout_error pose path =
     (let error = pose;
          error_angle = getYaw error
      in if path \<noteq> [] then
           (let x = position_x error - position_x (last path);
                y = position_y error - position_y (last path);
                theta = - getYaw (last path);
                error = error\<lparr>position_x := x * cos theta - y * sin theta\<rparr>;
                error = error\<lparr>position_y := y * cos theta + x * sin theta\<rparr>;
                error_angle = error_angle + theta;
                error = error\<lparr>orientation_z := sin (error_angle / 2)\<rparr>;
                error = error\<lparr>orientation_w := cos (error_angle / 2)\<rparr>
            in (error, error_angle))
         else (error, error_angle))"

text \<open>
  Lines 330 to 351: the next simulated pose. The source divides by \<^verbatim>\<open>vel_x\<close> without a
  test; \<open>None\<close> is the division by zero.
\<close>

definition generate_next_pose ::
  "'tf env \<Rightarrow> real \<Rightarrow> pose_stamped list \<Rightarrow> real \<Rightarrow> real \<Rightarrow> pose_stamped option" where
  "generate_next_pose e res path vel_x vel_th =
     (let next_pose = default_pose\<lparr>frame_id := getBaseFrameID e\<rparr>;
          next_pose = (if path = [] then next_pose\<lparr>orientation_w := 1\<rparr> else last path)
      in if vel_x = 0 then None
         else
           (let dt = res / vel_x;
                yaw = getYaw next_pose;
                next_pose = next_pose\<lparr>position_x := position_x next_pose + dt * vel_x * cos yaw\<rparr>;
                next_pose = next_pose\<lparr>position_y := position_y next_pose + dt * vel_x * sin yaw\<rparr>;
                yaw = yaw + dt * vel_th;
                next_pose = next_pose\<lparr>orientation_z := sin (yaw / 2)\<rparr>;
                next_pose = next_pose\<lparr>orientation_w := cos (yaw / 2)\<rparr>
            in Some next_pose))"

text \<open>
  The ways the \<^verbatim>\<open>while (true)\<close> loop of lines 286 to 368 is left: the \<^verbatim>\<open>return true\<close> of
  line 327, the two \<^verbatim>\<open>break\<close>s of lines 360 and 366, the \<^verbatim>\<open>return false\<close> of line 315,
  and the division by zero of line 345.
\<close>

datatype sim_exit = Converged | Rejected | ApproachFailed | DivisionByZero

text \<open>
  The loop itself, from a simulated path and a command to the way it was left, the path
  and the command; \<open>ctl\<close> is \<^verbatim>\<open>controller_\<close> and \<open>res\<close> is \<^verbatim>\<open>resolution_\<close>. It has no bound on its iterations: \<open>None\<close> is a loop that never
  leaves.
\<close>

partial_function (option) simulate ::
  "'tf env \<Rightarrow> controller \<Rightarrow> real \<Rightarrow> 'tf \<Rightarrow> pose_stamped \<Rightarrow> pose_stamped list \<Rightarrow> twist
     \<Rightarrow> (sim_exit \<times> pose_stamped list \<times> twist) option" where
  "simulate e ctl res base_to_odom pose path cmd_vel =
     (let (error, error_angle) = rollout_error pose path
      in case approach e ctl (position_x error) (position_y error) error_angle of
        None \<Rightarrow> Some (ApproachFailed, path, cmd_vel)
      | Some (vel_x, vel_th) \<Rightarrow>
          (let cmd_vel = (if path = [] then cmd_vel\<lparr>linear_x := vel_x, angular_z := vel_th\<rparr>
                          else cmd_vel)
           in if path \<noteq> [] \<and> hypot (position_x error) (position_y error) < res
              then Some (Converged, path, cmd_vel)
              else case generate_next_pose e (res) path vel_x vel_th of
                None \<Rightarrow> Some (DivisionByZero, path, cmd_vel)
              | Some next_pose \<Rightarrow>
                  (let path = path @ [next_pose];
                       next_pose = doTransform e next_pose base_to_odom
                   in case worldToMap e (position_x next_pose) (position_y next_pose) of
                     None \<Rightarrow> Some (Rejected, path, cmd_vel)
                   | Some (mx, my) \<Rightarrow>
                       if getCost e mx my \<ge> INSCRIBED_INFLATED_OBSTACLE
                       then Some (Rejected, path, cmd_vel)
                       else simulate e ctl res base_to_odom pose path cmd_vel)))"

subsection \<open>The result of a cycle\<close>

text \<open>
  The \<^verbatim>\<open>return false\<close> statements, told apart by the message logged before each.
\<close>

datatype failure =
  NotInitialized | NoRobotPose | NoLocalPlan | EmptyPlan | NoTransform
  | UnableToComputeApproach | NoPoseReachable

datatype exit = ReturnTrue | ReturnFalse failure | UndefinedDivision

text \<open>
  What a call leaves behind: how it returned, the \<^verbatim>\<open>cmd_vel\<close> reference parameter, the
  members, and the local plan if one was published. \<open>attempts\<close> is not a variable of the
  source: it lists, in the order of the calls, each plan index at which the rollout loop
  was entered, with the way the loop was left.
\<close>

record cycle =
  exit_of :: exit
  cmd_out :: twist
  state_out :: gc_state
  local_plan :: "pose_stamped list option"
  attempts :: "(nat \<times> sim_exit) list"

definition leave :: "exit \<Rightarrow> twist \<Rightarrow> gc_state \<Rightarrow> cycle" where
  "leave x cmd_vel s =
     \<lparr>exit_of = x, cmd_out = cmd_vel, state_out = s, local_plan = None, attempts = []\<rparr>"

definition attempted :: "nat \<Rightarrow> sim_exit \<Rightarrow> cycle \<Rightarrow> cycle" where
  "attempted i x c = c\<lparr>attempts := (i, x) # attempts c\<rparr>"

subsection \<open>The initial rotation\<close>

text \<open>
  Lines 257 to 269. The first component tells whether the call returns true at once, with
  the rotation command.
\<close>

definition initial_rotation ::
  "'tf env \<Rightarrow> gc_state \<Rightarrow> pose_stamped \<Rightarrow> twist \<Rightarrow> bool \<times> gc_state \<times> twist" where
  "initial_rotation e s pose cmd_vel =
     (if has_new_path s \<and> initial_rotate_tolerance s > 0 then
        (let (yaw, cmd_vel) = rotateTowards e s pose cmd_vel
         in if \<bar>yaw\<bar> < initial_rotate_tolerance s
            then (False, s\<lparr>has_new_path := False\<rparr>, cmd_vel)
            else (True, s, cmd_vel))
      else (False, s, cmd_vel))"

subsection \<open>The scan of the plan\<close>

text \<open>
  The loop of lines 242 to 369, entered at index \<open>i\<close> and counting down to 1, and the
  \<^verbatim>\<open>return false\<close> of line 372 once \<open>i\<close> is 0.
\<close>

text \<open>The test of line 249 on a pose of the plan, in the frame of the plan.\<close>

definition too_far :: "gc_state \<Rightarrow> pose_stamped \<Rightarrow> bool" where
  "too_far s pose =
     (let dx = position_x pose - position_x (robot_pose s);
          dy = position_y pose - position_y (robot_pose s)
      in hypot dx dy > max_lookahead s)"

fun scan ::
  "'tf env \<Rightarrow> 'tf \<Rightarrow> 'tf \<Rightarrow> pose_stamped list \<Rightarrow> nat \<Rightarrow> gc_state \<Rightarrow> twist \<Rightarrow> cycle option" where
  "scan e odom_to_base base_to_odom transformed_plan 0 s cmd_vel =
     Some (leave (ReturnFalse NoPoseReachable) cmd_vel s)"
| "scan e odom_to_base base_to_odom transformed_plan (Suc j) s cmd_vel =
     (let i = Suc j;
          pose = transformed_plan ! i
      in if too_far s pose
         then scan e odom_to_base base_to_odom transformed_plan j s cmd_vel
         else
           (let pose = doTransform e pose odom_to_base
            in case initial_rotation e s pose cmd_vel of
              (True, s, cmd_vel) \<Rightarrow> Some (leave ReturnTrue cmd_vel s)
            | (False, s, cmd_vel) \<Rightarrow>
                (let s = configure_max_velocity e s
                 in case simulate e (the_controller s) (resolution s) base_to_odom pose [] cmd_vel of
                   None \<Rightarrow> None
                 | Some (ApproachFailed, path, cmd_vel) \<Rightarrow>
                     Some (attempted i ApproachFailed
                       (leave (ReturnFalse UnableToComputeApproach) cmd_vel s))
                 | Some (Converged, path, cmd_vel) \<Rightarrow>
                     Some (attempted i Converged
                       ((leave ReturnTrue cmd_vel s)\<lparr>local_plan := Some path\<rparr>))
                 | Some (DivisionByZero, path, cmd_vel) \<Rightarrow>
                     Some (attempted i DivisionByZero (leave UndefinedDivision cmd_vel s))
                 | Some (Rejected, path, cmd_vel) \<Rightarrow>
                     map_option (attempted i Rejected)
                       (scan e odom_to_base base_to_odom transformed_plan j s cmd_vel))))"

declare scan.simps(2) [simp del]

subsection \<open>The call\<close>

definition computeVelocityCommands :: "'tf env \<Rightarrow> gc_state \<Rightarrow> twist \<Rightarrow> cycle option" where
  "computeVelocityCommands e s cmd_vel =
     (if \<not> initialized s then Some (leave (ReturnFalse NotInitialized) cmd_vel s)
      else case getRobotPose e of
        None \<Rightarrow> Some (leave (ReturnFalse NoRobotPose) cmd_vel s)
      | Some rp \<Rightarrow>
          (let s = s\<lparr>robot_pose := rp\<rparr>
           in case getLocalPlan e (robot_pose s) of
             None \<Rightarrow> Some (leave (ReturnFalse NoLocalPlan) cmd_vel s)
           | Some transformed_plan \<Rightarrow>
               if transformed_plan = [] then Some (leave (ReturnFalse EmptyPlan) cmd_vel s)
               else
                 (case lookupTransform e of
                    None \<Rightarrow> Some (leave (ReturnFalse NoTransform) cmd_vel s)
                  | Some odom_to_base \<Rightarrow>
                      (let base_to_odom = tf_inverse e odom_to_base;
                           dx = position_x (last transformed_plan) - position_x (robot_pose s);
                           dy = position_y (last transformed_plan) - position_y (robot_pose s)
                       in if hypot dx dy < xy_goal_tolerance s then
                            (let goal = doTransform e (last transformed_plan) odom_to_base;
                                 (yaw, cmd_vel) = rotateTowards e s goal cmd_vel
                             in Some (leave ReturnTrue cmd_vel s))
                          else scan e odom_to_base base_to_odom transformed_plan
                                 (length transformed_plan - 1) s cmd_vel))))"

section \<open>The words of the specification\<close>

text \<open>
  The specification clamps a value to an interval; this is the usual reading, which
  supposes \<open>lo \<le> hi\<close>.
\<close>

definition clamp :: "real \<Rightarrow> real \<Rightarrow> real \<Rightarrow> real" where
  "clamp v lo hi = (if v < lo then lo else if hi < v then hi else v)"

text \<open>
  The integration step as the specification words it: the yaw is updated first and the
  position advances along the new heading.
\<close>

definition spec_generate_next_pose ::
  "'tf env \<Rightarrow> real \<Rightarrow> pose_stamped list \<Rightarrow> real \<Rightarrow> real \<Rightarrow> pose_stamped option" where
  "spec_generate_next_pose e res path vel_x vel_th =
     (let next_pose = default_pose\<lparr>frame_id := getBaseFrameID e\<rparr>;
          next_pose = (if path = [] then next_pose\<lparr>orientation_w := 1\<rparr> else last path)
      in if vel_x = 0 then None
         else
           (let dt = res / vel_x;
                yaw = getYaw next_pose + dt * vel_th;
                next_pose = next_pose\<lparr>position_x := position_x next_pose + dt * vel_x * cos yaw\<rparr>;
                next_pose = next_pose\<lparr>position_y := position_y next_pose + dt * vel_x * sin yaw\<rparr>;
                next_pose = next_pose\<lparr>orientation_z := sin (yaw / 2)\<rparr>;
                next_pose = next_pose\<lparr>orientation_w := cos (yaw / 2)\<rparr>
            in Some next_pose))"

section \<open>Notions of the statements\<close>

text \<open>The bearing from a pose of a plan to its successor, and the pose turned to it.\<close>

definition bearing_to_next :: "pose_stamped list \<Rightarrow> nat \<Rightarrow> real" where
  "bearing_to_next plan i =
     atan2 (position_y (plan ! (i + 1)) - position_y (plan ! i))
           (position_x (plan ! (i + 1)) - position_x (plan ! i))"

definition pointed :: "pose_stamped list \<Rightarrow> nat \<Rightarrow> pose_stamped" where
  "pointed plan i = (plan ! i)\<lparr>orientation_z := sin (bearing_to_next plan i / 2),
     orientation_w := cos (bearing_to_next plan i / 2)\<rparr>"

text \<open>
  For the proofs about the scan: the exit a rollout leads to when it ends the scan, the
  attempts rejected above an index, and the form of every finished scan.
\<close>

definition exit_for :: "sim_exit \<Rightarrow> exit" where
  "exit_for x = (case x of Converged \<Rightarrow> ReturnTrue
     | ApproachFailed \<Rightarrow> ReturnFalse UnableToComputeApproach
     | DivisionByZero \<Rightarrow> UndefinedDivision
     | Rejected \<Rightarrow> ReturnFalse NoPoseReachable)"

definition rejected_before :: "gc_state \<Rightarrow> pose_stamped list \<Rightarrow> nat \<Rightarrow> nat \<Rightarrow> (nat \<times> sim_exit) list" where
  "rejected_before s plan k n =
     map (\<lambda>j. (j, Rejected)) (filter (\<lambda>j. \<not> too_far s (plan ! j)) (rev [Suc k..<Suc n]))"

definition scan_shape :: "gc_state \<Rightarrow> pose_stamped list \<Rightarrow> nat \<Rightarrow> cycle \<Rightarrow> nat \<Rightarrow> (nat \<times> sim_exit) list \<Rightarrow> bool" where
  "scan_shape s plan n c k fin \<longleftrightarrow>
     k \<le> n \<and> attempts c = rejected_before s plan k n @ fin
     \<and> (if k = 0 then fin = [] \<and> exit_of c = ReturnFalse NoPoseReachable
         else \<not> too_far s (plan ! k)
           \<and> ((fin = [] \<and> exit_of c = ReturnTrue)
              \<or> (\<exists>x. x \<noteq> Rejected \<and> fin = [(k, x)] \<and> exit_of c = exit_for x)))"

text \<open>
  What holds at the path with which the rollout loop is left, for each way of leaving
  it: \<^verbatim>\<open>approach\<close> failed there; or it succeeded and the remaining error is below the
  resolution; or it answered a zero \<^verbatim>\<open>vel_x\<close> short of convergence; or the last pose of the
  path is off the costmap or on a cell of inscribed cost or more.
\<close>

definition left_by ::
  "'tf env \<Rightarrow> controller \<Rightarrow> real \<Rightarrow> 'tf \<Rightarrow> pose_stamped \<Rightarrow> pose_stamped list \<Rightarrow> sim_exit \<Rightarrow> bool" where
  "left_by e ctl res base_to_odom pose path x =
     (let (error, error_angle) = rollout_error pose path;
          a = approach e ctl (position_x error) (position_y error) error_angle;
          near = (path \<noteq> [] \<and> hypot (position_x error) (position_y error) < res)
      in case x of
           ApproachFailed \<Rightarrow> a = None
         | Converged \<Rightarrow> a \<noteq> None \<and> near
         | DivisionByZero \<Rightarrow> map_option fst a = Some 0 \<and> \<not> near
         | Rejected \<Rightarrow>
             path \<noteq> [] \<and>
             (let q = doTransform e (last path) base_to_odom
              in case worldToMap e (position_x q) (position_y q) of
                   None \<Rightarrow> True
                 | Some (mx, my) \<Rightarrow> getCost e mx my \<ge> INSCRIBED_INFLATED_OBSTACLE))"

section \<open>Concrete scenes\<close>

text \<open>A planar pose with the identity orientation, and the zero command.\<close>

definition pose_at :: "real \<Rightarrow> real \<Rightarrow> pose_stamped" where
  "pose_at x y = default_pose\<lparr>position_x := x, position_y := y, orientation_w := 1\<rparr>"

definition still :: twist where
  "still = \<lparr>linear_x = 0, linear_y = 0, linear_z = 0,
            angular_x = 0, angular_y = 0, angular_z = 0\<rparr>"

definition sample_config :: config where
  "sample_config =
     \<lparr>cfg_max_vel_x = 1, cfg_min_vel_x = 1 / 2, cfg_max_vel_theta = 1, cfg_acc_lim_x = 1,
      cfg_acc_lim_theta = 2, cfg_xy_goal_tolerance = 1 / 10, cfg_yaw_goal_tolerance = 1 / 10,
      cfg_min_in_place_vel_theta = 1 / 2, cfg_max_lookahead = 1,
      cfg_initial_rotate_tolerance = 0, cfg_k1 = 1, cfg_k2 = 1, cfg_beta = 1, cfg_lambda = 1\<rparr>"

text \<open>
  A plan along the x axis whose last pose is beyond a lookahead of one unit, and a robot
  at the origin of a frame that is both the plan's and its own, on a costmap that has no
  cell anywhere, with a steering law that always answers \<open>(1, 0)\<close>.
\<close>

definition sample_plan :: "pose_stamped list" where
  "sample_plan = [pose_at 0 0, pose_at (1 / 4) 0, pose_at (1 / 2) 0, pose_at 2 0]"

definition sample_env :: "unit env" where
  "sample_env =
     \<lparr>getRobotPose = Some (pose_at 0 0),
      getLocalPlan = (\<lambda>rp. Some sample_plan),
      getGoal = Some (pose_at 2 0),
      lookupTransform = Some (),
      tf_inverse = (\<lambda>t. t),
      doTransform = (\<lambda>p t. p),
      getBaseFrameID = ''base_link'',
      getRobotVel = pose_at 0 0,
      approach = (\<lambda>c x y th. Some (1, 0)),
      worldToMap = (\<lambda>x y. None),
      getCost = (\<lambda>mx my. 0),
      getResolution = 1,
      shortest_angular_distance = (\<lambda>from to. to - from),
      util_setPlan = (\<lambda>plan. True)\<rparr>"

text \<open>The members after \<^verbatim>\<open>initialize\<close> and one reconfiguration, without odometry.\<close>

definition sample_state :: gc_state where
  "sample_state =
     reconfigureCallback sample_env sample_config
       \<lparr>initialized = True, has_new_path = False, max_vel_x = 0, min_in_place_vel_theta = 0,
        xy_goal_tolerance = 0, yaw_goal_tolerance = 0, max_lookahead = 0, resolution = 0,
        acc_dt = 1 / 4, initial_rotate_tolerance = 0, robot_pose = default_pose,
        the_controller =
          \<lparr>gc_k1 = 0, gc_k2 = 0, gc_min_vel_x = 0, gc_max_vel_x = 0, gc_acc_lim_x = 0,
           gc_max_vel_theta = 0, gc_beta = 0, gc_lambda = 0\<rparr>,
        current_limits =
          \<lparr>lim_max_vel_x = 0, lim_min_vel_x = 0, lim_max_vel_theta = 0, lim_acc_lim_x = 0,
           lim_acc_lim_theta = 0\<rparr>,
        odom_topic = []\<rparr>"

text \<open>The same members with an odometry topic configured.\<close>

definition odom_state :: gc_state where
  "odom_state = sample_state\<lparr>odom_topic := ''odom''\<rparr>"




text \<open>A plan of three poses around a corner.\<close>

definition corner_plan :: "pose_stamped list" where
  "corner_plan = [pose_at 0 0, pose_at 1 0, pose_at 1 1]"

text \<open>
  Two poses on the \<open>x\<close> axis, the first with an orientation that is not a rotation about
  the vertical axis: its quaternion \<open>(1/5, 2/5, 2/5, 4/5)\<close> has unit length and non-zero
  \<open>x\<close> and \<open>y\<close>.
\<close>

definition tilted_plan :: "pose_stamped list" where
  "tilted_plan = [(pose_at 0 0)\<lparr>orientation_x := 1 / 5, orientation_y := 2 / 5,
      orientation_z := 2 / 5, orientation_w := 4 / 5\<rparr>, pose_at 1 0]"

text \<open>A steering law that always fails, and the results of two sample cycles.\<close>

definition failing_env :: "unit env" where
  "failing_env = sample_env\<lparr>approach := (\<lambda>c x y th. None)\<rparr>"

definition sample_result :: cycle where
  "sample_result =
     \<lparr>exit_of = ReturnFalse NoPoseReachable,
      cmd_out = still\<lparr>linear_x := 1, angular_z := 0\<rparr>,
      state_out = sample_state\<lparr>robot_pose := pose_at 0 0\<rparr>,
      local_plan = None,
      attempts = [(2, Rejected), (1, Rejected)]\<rparr>"

definition failing_result :: cycle where
  "failing_result =
     \<lparr>exit_of = ReturnFalse UnableToComputeApproach,
      cmd_out = still,
      state_out = sample_state\<lparr>robot_pose := pose_at 0 0\<rparr>,
      local_plan = None,
      attempts = [(2, ApproachFailed)]\<rparr>"

text \<open>
  A costmap that is free everywhere, on which the sample steering law drives straight
  ahead through the poses \<open>stride 1\<close>, \<open>stride 2\<close>, and so on; a steering law that turns by
  \<open>pi\<close> at every step, between the two poses \<open>turn1\<close> and \<open>turn2\<close>; and one that answers a
  zero forward velocity.
\<close>

definition open_env :: "unit env" where
  "open_env = sample_env\<lparr>worldToMap := (\<lambda>x y. Some (0, 0))\<rparr>"

definition stride :: "real \<Rightarrow> pose_stamped" where
  "stride x = default_pose\<lparr>frame_id := ''base_link'', position_x := x, orientation_w := 1\<rparr>"

definition spin_env :: "unit env" where
  "spin_env = open_env\<lparr>approach := (\<lambda>c x y th. Some (1, pi))\<rparr>"

definition turn1 :: pose_stamped where
  "turn1 = (stride 1)\<lparr>orientation_z := 1, orientation_w := 0\<rparr>"

definition turn2 :: pose_stamped where
  "turn2 = (stride 0)\<lparr>orientation_z := 0, orientation_w := - 1\<rparr>"

definition stalled_env :: "unit env" where
  "stalled_env = sample_env\<lparr>approach := (\<lambda>c x y th. Some (0, 1))\<rparr>"

section \<open>Facts about the library and the scenes\<close>


lemma clamp_max_min: "lo \<le> hi \<Longrightarrow> max (min v hi) lo = clamp v lo hi"
  by (simp add: clamp_def min_def max_def)

lemma sample_state_simps:
  "initialized sample_state" "\<not> has_new_path sample_state" "max_vel_x sample_state = 1"
  "min_in_place_vel_theta sample_state = 1 / 2" "xy_goal_tolerance sample_state = 1 / 10"
  "yaw_goal_tolerance sample_state = 1 / 10" "max_lookahead sample_state = 1"
  "resolution sample_state = 1" "acc_dt sample_state = 1 / 4"
  "initial_rotate_tolerance sample_state = 0" "odom_topic sample_state = []"
  "current_limits sample_state = \<lparr>lim_max_vel_x = 1, lim_min_vel_x = 1 / 2,
     lim_max_vel_theta = 1, lim_acc_lim_x = 1, lim_acc_lim_theta = 2\<rparr>"
  by (simp_all add: sample_state_def reconfigureCallback_def sample_config_def sample_env_def)

lemma getYaw_pose_at: "getYaw (pose_at x y) = 0"
  by (simp add: getYaw_def pose_at_def default_pose_def atan2_def)

section \<open>The rotation controller\<close>



section \<open>The rollout, one iteration\<close>

text \<open>One turn of the loop that neither fails, converges nor divides by zero.\<close>

lemma simulate_step:
  assumes "rollout_error pose path = (error, error_angle)"
    and "approach e ctl (position_x error) (position_y error) error_angle
           = Some (vel_x, vel_th)"
    and "\<not> (path \<noteq> [] \<and> hypot (position_x error) (position_y error) < res)"
    and "generate_next_pose e (res) path vel_x vel_th = Some np"
  shows "simulate e ctl res base_to_odom pose path cmd_vel =
     (let cmd = (if path = [] then cmd_vel\<lparr>linear_x := vel_x, angular_z := vel_th\<rparr> else cmd_vel);
          q = doTransform e np base_to_odom
      in case worldToMap e (position_x q) (position_y q) of
           None \<Rightarrow> Some (Rejected, path @ [np], cmd)
         | Some (mx, my) \<Rightarrow>
             if getCost e mx my \<ge> INSCRIBED_INFLATED_OBSTACLE
             then Some (Rejected, path @ [np], cmd)
             else simulate e ctl res base_to_odom pose (path @ [np]) cmd)"
  using assms by (subst simulate.simps) (auto simp add: Let_def)

text \<open>
  C1 (as the code has it). In an iteration of the rollout that reaches the integration,
  with \<open>vel_x\<close> not zero, \<open>dt = resolution / vel_x\<close>; the position advances by
  \<open>dt * vel_x\<close> along the heading the pose had before the step, and only then the yaw is
  increased by \<open>dt * vel_th\<close> and written into the orientation; the resulting pose is
  appended to the simulated path, with which the loop goes on unless the pose is rejected.
\<close>

theorem integration_step:
  assumes "rollout_error pose path = (error, error_angle)"
    and "approach e ctl (position_x error) (position_y error) error_angle
           = Some (vel_x, vel_th)"
    and "\<not> (path \<noteq> [] \<and> hypot (position_x error) (position_y error) < res)"
    and "vel_x \<noteq> 0"
  shows "\<exists>np. generate_next_pose e (res) path vel_x vel_th = Some np \<and>
     (let start = (if path = []
                   then default_pose\<lparr>frame_id := getBaseFrameID e, orientation_w := 1\<rparr>
                   else last path);
          dt = res / vel_x;
          yaw = getYaw start;
          cmd = (if path = [] then cmd_vel\<lparr>linear_x := vel_x, angular_z := vel_th\<rparr> else cmd_vel);
          q = doTransform e np base_to_odom
      in position_x np = position_x start + dt * vel_x * cos yaw
       \<and> position_y np = position_y start + dt * vel_x * sin yaw
       \<and> orientation_z np = sin ((yaw + dt * vel_th) / 2)
       \<and> orientation_w np = cos ((yaw + dt * vel_th) / 2)
       \<and> orientation_x np = orientation_x start \<and> orientation_y np = orientation_y start
       \<and> position_z np = position_z start \<and> frame_id np = frame_id start
       \<and> simulate e ctl res base_to_odom pose path cmd_vel =
           (case worldToMap e (position_x q) (position_y q) of
              None \<Rightarrow> Some (Rejected, path @ [np], cmd)
            | Some (mx, my) \<Rightarrow>
                if getCost e mx my \<ge> INSCRIBED_INFLATED_OBSTACLE
                then Some (Rejected, path @ [np], cmd)
                else simulate e ctl res base_to_odom pose (path @ [np]) cmd))"
proof -
  obtain np where np: "generate_next_pose e (res) path vel_x vel_th = Some np"
    using assms(4) by (simp add: generate_next_pose_def Let_def)
  have step: "simulate e ctl res base_to_odom pose path cmd_vel =
     (let cmd = (if path = [] then cmd_vel\<lparr>linear_x := vel_x, angular_z := vel_th\<rparr> else cmd_vel);
          q = doTransform e np base_to_odom
      in case worldToMap e (position_x q) (position_y q) of
           None \<Rightarrow> Some (Rejected, path @ [np], cmd)
         | Some (mx, my) \<Rightarrow>
             if getCost e mx my \<ge> INSCRIBED_INFLATED_OBSTACLE
             then Some (Rejected, path @ [np], cmd)
             else simulate e ctl res base_to_odom pose (path @ [np]) cmd)"
    by (rule simulate_step [OF assms(1-3) np])
  have shape: "np = (let start = (if path = []
                   then default_pose\<lparr>frame_id := getBaseFrameID e, orientation_w := 1\<rparr>
                   else last path);
          dt = res / vel_x;
          yaw = getYaw start
       in start\<lparr>position_x := position_x start + dt * vel_x * cos yaw,
          position_y := position_y start + dt * vel_x * sin yaw,
          orientation_z := sin ((yaw + dt * vel_th) / 2),
          orientation_w := cos ((yaw + dt * vel_th) / 2)\<rparr>)"
    using np assms(4) by (auto simp add: generate_next_pose_def Let_def)
  have fields: "(let start = (if path = []
                   then default_pose\<lparr>frame_id := getBaseFrameID e, orientation_w := 1\<rparr>
                   else last path);
          dt = res / vel_x;
          yaw = getYaw start
      in position_x np = position_x start + dt * vel_x * cos yaw
       \<and> position_y np = position_y start + dt * vel_x * sin yaw
       \<and> orientation_z np = sin ((yaw + dt * vel_th) / 2)
       \<and> orientation_w np = cos ((yaw + dt * vel_th) / 2)
       \<and> orientation_x np = orientation_x start \<and> orientation_y np = orientation_y start
       \<and> position_z np = position_z start \<and> frame_id np = frame_id start)"
    by (subst (1 2 3 4 5 6 7 8) shape) (simp add: Let_def)
  show ?thesis
    using np step fields by (intro exI [of _ np]) (simp add: Let_def)
qed

text \<open>
  The first iteration towards a pose half a unit ahead: the steering law answers
  \<open>(1, 0)\<close>, the step is one unit long along the x axis, and the pose falls off the
  costmap.
\<close>

theorem integration_step_witness:
  "rollout_error (pose_at (1 / 2) 0) [] = (pose_at (1 / 2) 0, 0)
   \<and> approach sample_env (the_controller sample_state) (1 / 2) 0 0 = Some (1, 0)
   \<and> (\<exists>np. generate_next_pose sample_env (resolution sample_state) [] 1 0 = Some np
        \<and> position_x np = 1 \<and> position_y np = 0
        \<and> simulate sample_env (the_controller sample_state) (resolution sample_state) () (pose_at (1 / 2) 0) [] still
            = Some (Rejected, [np], still\<lparr>linear_x := 1, angular_z := 0\<rparr>))"
proof -
  have h1: "rollout_error (pose_at (1 / 2) 0) [] = (pose_at (1 / 2) 0, 0)"
    by (simp add: rollout_error_def Let_def getYaw_pose_at)
  have h2: "approach sample_env (the_controller sample_state)
      (position_x (pose_at (1 / 2) 0)) (position_y (pose_at (1 / 2) 0)) 0 = Some (1, 0)"
    by (simp add: sample_env_def)
  have h3: "\<not> (([] :: pose_stamped list) \<noteq> []
      \<and> hypot (position_x (pose_at (1 / 2) 0)) (position_y (pose_at (1 / 2) 0))
          < resolution sample_state)"
    by simp
  have h4: "(1::real) \<noteq> 0"
    by simp
  have w: "worldToMap sample_env x y = None" for x y
    by (simp add: sample_env_def)
  from integration_step [OF h1 h2 h3 h4, of still "()"]
  obtain np where "generate_next_pose sample_env (resolution sample_state) [] 1 0 = Some np"
    and "position_x np = 1" and "position_y np = 0"
    and "simulate sample_env (the_controller sample_state) (resolution sample_state) () (pose_at (1 / 2) 0) [] still
          = Some (Rejected, [np], still\<lparr>linear_x := 1, angular_z := 0\<rparr>)"
    by (auto simp add: Let_def w default_pose_def getYaw_def atan2_def sample_state_simps)
  with h1 h2 show ?thesis
    by (auto simp add: pose_at_def default_pose_def)
qed

text \<open>
  The claim as the specification words it fails: with an angular velocity of \<open>pi\<close> the
  code's first step ends at \<open>x = 1\<close>, where the yaw-first step would end at \<open>x = - 1\<close>.
\<close>

theorem integration_step_counterexample:
  "map_option position_x (generate_next_pose sample_env 1 [] 1 pi) = Some 1
   \<and> map_option position_x (spec_generate_next_pose sample_env 1 [] 1 pi) = Some (- 1)"
  by (simp add: generate_next_pose_def spec_generate_next_pose_def Let_def getYaw_def
      default_pose_def atan2_def)

section \<open>The velocity limiter\<close>

text \<open>
  C5 (as the code has it). With an odometry topic the maximum forward velocity pushed
  into the steering law is \<open>max (min (measured + acc_lim_x * acc_dt) max_vel_x) min_vel_x\<close>,
  which is the clamp of the specification when \<open>min_vel_x \<le> max_vel_x\<close>. It never exceeds
  the larger of \<open>min_vel_x\<close> and \<open>measured + acc_lim_x * acc_dt\<close>; it stays below
  \<open>measured + acc_lim_x * acc_dt\<close> only when \<open>min_vel_x\<close> does. Without an odometry topic
  the call leaves the steering law as the last reconfiguration built it, with the
  configured maximum.
\<close>

theorem velocity_limit:
  "(odom_topic s \<noteq> [] \<longrightarrow>
      (let v = position_x (getRobotVel e) + lim_acc_lim_x (current_limits s) * acc_dt s;
           lo = lim_min_vel_x (current_limits s);
           hi = max_vel_x s;
           c = the_controller (configure_max_velocity e s)
       in gc_max_vel_x c = max (min v hi) lo
        \<and> (lo \<le> hi \<longrightarrow> gc_max_vel_x c = clamp v lo hi)
        \<and> gc_max_vel_x c \<le> max lo v
        \<and> (lo \<le> v \<longrightarrow> gc_max_vel_x c \<le> v)
        \<and> (lo \<le> hi \<longrightarrow> gc_max_vel_x c \<le> hi)
        \<and> gc_min_vel_x c = lo
        \<and> gc_max_vel_theta c = lim_max_vel_theta (current_limits s)))
   \<and> (odom_topic s = [] \<longrightarrow> configure_max_velocity e s = s)
   \<and> (odom_topic s = [] \<longrightarrow>
        gc_max_vel_x (the_controller (configure_max_velocity e (reconfigureCallback e' cfg s)))
          = cfg_max_vel_x cfg)"
  by (auto simp add: configure_max_velocity_def setVelocityLimits_def Let_def clamp_max_min
      reconfigureCallback_def)

theorem velocity_limit_witness:
  "odom_topic odom_state \<noteq> [] \<and> odom_topic sample_state = []
   \<and> lim_min_vel_x (current_limits odom_state) \<le> max_vel_x odom_state
   \<and> gc_max_vel_x (the_controller (configure_max_velocity sample_env odom_state))
       = clamp (1 / 4) (1 / 2) 1
   \<and> gc_max_vel_x (the_controller
        (configure_max_velocity sample_env (reconfigureCallback sample_env sample_config sample_state)))
       = 1"
  using velocity_limit [of odom_state sample_env sample_env sample_config]
    velocity_limit [of sample_state sample_env sample_env sample_config]
  by (simp add: odom_state_def Let_def sample_state_simps sample_env_def pose_at_def
      default_pose_def sample_config_def)

text \<open>
  A robot at rest with \<open>acc_lim_x * acc_dt = 1/4\<close> and \<open>min_vel_x = 1/2\<close>: the limit pushed
  is \<open>1/2\<close>, above \<open>measured + acc_lim_x * acc_dt\<close>.
\<close>

theorem velocity_limit_counterexample:
  "position_x (getRobotVel sample_env)
     + lim_acc_lim_x (current_limits odom_state) * acc_dt odom_state = 1 / 4
   \<and> gc_max_vel_x (the_controller (configure_max_velocity sample_env odom_state)) = 1 / 2
   \<and> max_vel_x odom_state = 1"
  by (simp add: odom_state_def configure_max_velocity_def setVelocityLimits_def Let_def
      sample_state_simps sample_env_def pose_at_def default_pose_def)

section \<open>Reaching the goal\<close>










section \<open>Angles\<close>

lemma atan2_range: "- pi < atan2 y x \<and> atan2 y x \<le> pi"
proof -
  have a: "- (pi / 2) < arctan (y / x)" "arctan (y / x) < pi / 2"
    by (rule arctan_lbound, rule arctan_ubound)
  have b: "0 \<le> y \<Longrightarrow> x < 0 \<Longrightarrow> arctan (y / x) \<le> 0"
    by (simp add: arctan_le_zero_iff divide_nonneg_neg)
  have c: "y < 0 \<Longrightarrow> x < 0 \<Longrightarrow> 0 < arctan (y / x)"
    by (simp add: zero_less_arctan_iff divide_neg_neg)
  show ?thesis
    using a b c pi_gt_zero by (auto simp add: atan2_def)
qed

lemma atan2_sin_cos:
  assumes "- pi < a" and "a \<le> pi"
  shows "atan2 (sin a) (cos a) = a"
proof -
  consider (mid) "- (pi / 2) < a" "a < pi / 2" | (top) "a = pi / 2" | (bot) "a = - (pi / 2)"
    | (left) "pi / 2 < a" | (right) "a < - (pi / 2)"
    by linarith
  then show ?thesis
  proof cases
    case mid
    then have "0 < cos a" by (rule cos_gt_zero_pi)
    moreover have "arctan (sin a / cos a) = a"
      using arctan_tan [of a] mid by (simp add: tan_def)
    ultimately show ?thesis
      by (simp add: atan2_def)
  next
    case top
    show ?thesis unfolding top by (simp add: atan2_def)
  next
    case bot
    show ?thesis unfolding bot by (simp add: atan2_def)
  next
    case left
    have "cos a = - cos (a - pi)" by (simp add: cos_diff)
    moreover have "0 < cos (a - pi)"
      using left assms by (intro cos_gt_zero_pi) linarith+
    ultimately have neg: "cos a < 0" by linarith
    have "0 \<le> sin a"
      using left assms by (intro sin_ge_zero) linarith+
    moreover have "tan a = tan (a - pi)"
      using tan_periodic_pi [of "a - pi"] by simp
    moreover have "arctan (tan (a - pi)) = a - pi"
      using left assms by (intro arctan_tan) linarith+
    ultimately have "0 \<le> sin a" and "arctan (sin a / cos a) = a - pi"
      by (simp_all add: tan_def)
    then show ?thesis
      using neg by (simp add: atan2_def)
  next
    case right
    have "cos a = - cos (a + pi)" by (simp add: cos_add)
    moreover have "0 < cos (a + pi)"
      using right assms by (intro cos_gt_zero_pi) linarith+
    ultimately have neg: "cos a < 0" by linarith
    have "sin a = - sin (- a)" by simp
    moreover have "0 < sin (- a)"
      using right assms by (intro sin_gt_zero) linarith+
    ultimately have sneg: "sin a < 0" by linarith
    have "tan a = tan (a + pi)"
      by simp
    moreover have "arctan (tan (a + pi)) = a + pi"
      using right assms by (intro arctan_tan) linarith+
    ultimately have "arctan (sin a / cos a) = a + pi"
      by (simp add: tan_def)
    then show ?thesis
      using neg sneg by (simp add: atan2_def)
  qed
qed

lemma getYaw_planar:
  assumes "orientation_x p = 0" and "orientation_y p = 0"
    and "orientation_z p = sin (a / 2)" and "orientation_w p = cos (a / 2)"
    and "- pi < a" and "a \<le> pi"
  shows "getYaw p = a"
proof -
  have s: "2 * (cos (a / 2) * sin (a / 2)) = sin a"
    using sin_double [of "a / 2"] by simp
  have c: "cos (a / 2) * cos (a / 2) - sin (a / 2) * sin (a / 2) = cos a"
    using cos_double [of "a / 2"] by (simp add: power2_eq_square)
  show ?thesis
    using assms by (simp add: getYaw_def Let_def s c atan2_sin_cos)
qed

section \<open>The oriented plan\<close>

lemma unat_loop_bound:
  assumes "oriented_plan \<noteq> []" and "length oriented_plan < 2 ^ 64"
  shows "unat (loop_bound oriented_plan) = length oriented_plan - 1"
proof -
  have n: "unat (word_of_nat (length oriented_plan) :: 64 word) = length oriented_plan"
    using assms(2) by (simp add: unat_of_nat)
  then have "(word_of_nat (length oriented_plan) :: 64 word) \<noteq> 0"
    using assms(1) by (metis length_0_conv unat_0)
  then show ?thesis
    using n by (simp add: loop_bound_def unat_minus_one)
qed

lemma less_loop_bound:
  assumes "oriented_plan \<noteq> []" and "length oriented_plan < 2 ^ 64"
  shows "i < loop_bound oriented_plan \<longleftrightarrow> unat i < length oriented_plan - 1"
  by (simp add: word_less_nat_alt unat_loop_bound [OF assms])

lemma length_point_at_next: "length (point_at_next plan i oriented_plan) = length oriented_plan"
  by (simp add: point_at_next_def Let_def)

lemma nth_point_at_next:
  "k < length oriented_plan \<Longrightarrow>
     point_at_next plan i oriented_plan ! k = (if k = i then pointed plan i else oriented_plan ! k)"
  by (simp add: point_at_next_def Let_def pointed_def bearing_to_next_def)

lemma orient_loop_result:
  assumes "length oriented_plan = length plan" and "plan \<noteq> []" and "length plan < 2 ^ 64"
  shows "\<exists>out. orient_loop plan i oriented_plan = Inr out \<and> length out = length plan
     \<and> (\<forall>k < length plan. out ! k =
           (if unat i \<le> k \<and> k + 1 < length plan then pointed plan k else oriented_plan ! k))"
  using assms
proof (induction plan i oriented_plan rule: orient_loop.induct)
  case (1 plan i oriented_plan)
  have ne: "oriented_plan \<noteq> []" and small: "length oriented_plan < 2 ^ 64"
    using "1.prems" by auto
  show ?case
  proof (cases "i < loop_bound oriented_plan")
    case False
    then have "\<not> unat i < length plan - 1"
      using less_loop_bound [OF ne small, of i] "1.prems"(1) by simp
    then show ?thesis
      using False "1.prems"(1) by (subst orient_loop.simps) auto
  next
    case True
    then have lt: "unat i < length plan - 1"
      using less_loop_bound [OF ne small, of i] "1.prems"(1) by simp
    then have inside: "unat i < length oriented_plan \<and> unat i + 1 < length plan"
      using "1.prems"(1) by auto
    have "unat i + 1 < 2 ^ 64"
      using lt "1.prems"(3) by simp
    then have suc: "unat (i + 1) = unat i + 1"
      using unat_add_lem [of i 1] by simp
    let ?op = "point_at_next plan (unat i) oriented_plan"
    have "length ?op = length plan"
      using "1.prems"(1) by (simp add: length_point_at_next)
    from "1.IH" [OF True inside this "1.prems"(2,3)]
    obtain out where out: "orient_loop plan (i + 1) ?op = Inr out" "length out = length plan"
      and nth: "\<forall>k < length plan. out ! k =
         (if unat (i + 1) \<le> k \<and> k + 1 < length plan then pointed plan k else ?op ! k)"
      by blast
    have "orient_loop plan i oriented_plan = Inr out"
      using True inside out(1) by (subst orient_loop.simps) simp
    moreover have "out ! k =
        (if unat i \<le> k \<and> k + 1 < length plan then pointed plan k else oriented_plan ! k)"
      if "k < length plan" for k
      using that nth suc "1.prems"(1) inside by (auto simp add: nth_point_at_next)
    ultimately show ?thesis
      using out(2) by blast
  qed
qed

lemma orient_plan_result:
  assumes "plan \<noteq> []" and "length plan < 2 ^ 64"
  shows "\<exists>out. orient_plan plan = Inr out \<and> length out = length plan
     \<and> (\<forall>k. k + 1 < length plan \<longrightarrow> out ! k = pointed plan k)
     \<and> last out = last plan"
proof -
  let ?op = "(replicate (length plan) default_pose)[length plan - 1 := last plan]"
  have len: "length ?op = length plan"
    by simp
  from orient_loop_result [OF len assms, of 0]
  obtain out where out: "orient_loop plan 0 ?op = Inr out" "length out = length plan"
    and nth: "\<forall>k < length plan. out ! k =
         (if k + 1 < length plan then pointed plan k else ?op ! k)"
    by auto
  have "orient_plan plan = Inr out"
    using assms(1) out(1) by (simp add: orient_plan_def Let_def)
  moreover have "out ! k = pointed plan k" if "k + 1 < length plan" for k
    using that nth by simp
  moreover have "last out = last plan"
  proof -
    have "out \<noteq> []"
      using out(2) assms(1) by auto
    then have "last out = out ! (length plan - 1)"
      using out(2) by (simp add: last_conv_nth)
    also have "\<dots> = ?op ! (length plan - 1)"
      using nth assms(1) by simp
    also have "\<dots> = last plan"
      using assms(1) by simp
    finally show ?thesis .
  qed
  ultimately show ?thesis
    using out(2) by blast
qed

text \<open>
  C2. For every non-empty plan (of a length a vector can have), \<open>setPlan\<close> builds a plan
  of the same length in which every pose but the last is the input pose with the yaw
  \<open>atan2 dy dx\<close> towards its successor written into the \<open>z\<close> and \<open>w\<close> of its orientation;
  the \<open>x\<close> and \<open>y\<close> of the orientation are those of the input. For an input pose whose
  orientation has \<open>x = 0\<close> and \<open>y = 0\<close> (a planar pose) the heading read back is that
  bearing. The last pose is the input's last pose, unchanged. This plan is what an
  initialized controller hands to the planner utilities.
\<close>

theorem setPlan_headings:
  assumes "plan \<noteq> []" and "length plan < 2 ^ 64"
  shows "\<exists>oriented_plan. orient_plan plan = Inr oriented_plan
     \<and> length oriented_plan = length plan
     \<and> (\<forall>i. i + 1 < length plan \<longrightarrow>
          oriented_plan ! i = (plan ! i)\<lparr>orientation_z := sin (bearing_to_next plan i / 2),
             orientation_w := cos (bearing_to_next plan i / 2)\<rparr>
          \<and> (orientation_x (plan ! i) = 0 \<and> orientation_y (plan ! i) = 0
               \<longrightarrow> getYaw (oriented_plan ! i) = bearing_to_next plan i))
     \<and> last oriented_plan = last plan
     \<and> (initialized s \<longrightarrow> setPlan e s plan =
          (if util_setPlan e oriented_plan then Inr (True, s\<lparr>has_new_path := True\<rparr>)
           else Inr (False, s)))"
proof -
  from orient_plan_result [OF assms]
  obtain out where out: "orient_plan plan = Inr out" "length out = length plan"
    "\<forall>k. k + 1 < length plan \<longrightarrow> out ! k = pointed plan k" "last out = last plan"
    by blast
  have yaw: "getYaw (pointed plan i) = bearing_to_next plan i"
    if "orientation_x (plan ! i) = 0 \<and> orientation_y (plan ! i) = 0" for i
    using that atan2_range
    by (intro getYaw_planar) (simp_all add: pointed_def bearing_to_next_def)
  have "setPlan e s plan =
          (if util_setPlan e out then Inr (True, s\<lparr>has_new_path := True\<rparr>) else Inr (False, s))"
    if "initialized s"
    using that out(1) by (simp add: setPlan_def)
  then show ?thesis
    using out yaw by (intro exI [of _ out]) (simp add: pointed_def)
qed

text \<open>Around the corner the headings are \<open>0\<close> and \<open>pi / 2\<close>, and the last pose is kept.\<close>

theorem setPlan_headings_witness:
  "corner_plan \<noteq> [] \<and> length corner_plan < 2 ^ 64
   \<and> (\<exists>oriented_plan. orient_plan corner_plan = Inr oriented_plan
        \<and> getYaw (oriented_plan ! 0) = 0 \<and> getYaw (oriented_plan ! 1) = pi / 2
        \<and> last oriented_plan = pose_at 1 1
        \<and> setPlan sample_env sample_state corner_plan
            = Inr (True, sample_state\<lparr>has_new_path := True\<rparr>))"
proof -
  have ne: "corner_plan \<noteq> []" and small: "length corner_plan < 2 ^ 64"
    by (simp_all add: corner_plan_def)
  have b0: "bearing_to_next corner_plan 0 = 0"
    by (simp add: bearing_to_next_def corner_plan_def pose_at_def default_pose_def atan2_def)
  have b1: "bearing_to_next corner_plan 1 = pi / 2"
    by (simp add: bearing_to_next_def corner_plan_def pose_at_def default_pose_def atan2_def)
  have planar: "orientation_x (corner_plan ! 0) = 0 \<and> orientation_y (corner_plan ! 0) = 0"
    "orientation_x (corner_plan ! 1) = 0 \<and> orientation_y (corner_plan ! 1) = 0"
    by (simp_all add: corner_plan_def pose_at_def default_pose_def)
  from setPlan_headings [OF ne small, of sample_state sample_env]
  obtain out where out: "orient_plan corner_plan = Inr out"
    and nth: "\<forall>i. i + 1 < length corner_plan \<longrightarrow>
          out ! i = (corner_plan ! i)\<lparr>orientation_z := sin (bearing_to_next corner_plan i / 2),
             orientation_w := cos (bearing_to_next corner_plan i / 2)\<rparr>
          \<and> (orientation_x (corner_plan ! i) = 0 \<and> orientation_y (corner_plan ! i) = 0
               \<longrightarrow> getYaw (out ! i) = bearing_to_next corner_plan i)"
    and la: "last out = last corner_plan"
    and sp: "initialized sample_state \<longrightarrow> setPlan sample_env sample_state corner_plan =
          (if util_setPlan sample_env out then Inr (True, sample_state\<lparr>has_new_path := True\<rparr>)
           else Inr (False, sample_state))"
    by blast
  have l0: "0 + 1 < length corner_plan" and l1: "1 + 1 < length corner_plan"
    by (simp_all add: corner_plan_def)
  have "getYaw (out ! 0) = bearing_to_next corner_plan 0"
    using nth [rule_format, OF l0] planar(1) by blast
  then have "getYaw (out ! 0) = 0"
    by (simp only: b0)
  moreover have "getYaw (out ! 1) = bearing_to_next corner_plan 1"
    using nth [rule_format, OF l1] planar(2) by blast
  then have "getYaw (out ! 1) = pi / 2"
    by (simp only: b1)
  moreover have "last out = pose_at 1 1"
    using la by (simp add: corner_plan_def)
  moreover have "setPlan sample_env sample_state corner_plan
            = Inr (True, sample_state\<lparr>has_new_path := True\<rparr>)"
    using sp by (simp add: sample_state_simps sample_env_def)
  ultimately show ?thesis
    using ne small out by blast
qed

text \<open>
  The claim as the specification words it, for every input plan, fails on a pose that is
  not planar: the bearing from the first pose of \<open>tilted_plan\<close> to the second is \<open>0\<close>, the
  code overwrites \<open>z\<close> and \<open>w\<close> with \<open>0\<close> and \<open>1\<close> and keeps \<open>x = 1/5\<close> and \<open>y = 2/5\<close>, and the
  heading of the resulting orientation is \<open>arctan (2/11)\<close>, which is not \<open>0\<close>.
\<close>

theorem setPlan_headings_counterexample:
  "tilted_plan \<noteq> [] \<and> length tilted_plan < 2 ^ 64
   \<and> bearing_to_next tilted_plan 0 = 0
   \<and> (\<exists>oriented_plan. orient_plan tilted_plan = Inr oriented_plan
        \<and> setPlan sample_env sample_state tilted_plan
            = Inr (True, sample_state\<lparr>has_new_path := True\<rparr>)
        \<and> oriented_plan ! 0 = (pose_at 0 0)\<lparr>orientation_x := 1 / 5, orientation_y := 2 / 5,
              orientation_z := 0, orientation_w := 1\<rparr>
        \<and> getYaw (oriented_plan ! 0) = arctan (2 / 11)
        \<and> getYaw (oriented_plan ! 0) \<noteq> bearing_to_next tilted_plan 0)"
proof -
  have ne: "tilted_plan \<noteq> []" and small: "length tilted_plan < 2 ^ 64"
    and two: "0 + 1 < length tilted_plan"
    by (simp_all add: tilted_plan_def)
  have b: "bearing_to_next tilted_plan 0 = 0"
    by (simp add: tilted_plan_def bearing_to_next_def pose_at_def default_pose_def atan2_def)
  from orient_plan_result [OF ne small]
  obtain out where out: "orient_plan tilted_plan = Inr out"
    and nth: "\<forall>k. k + 1 < length tilted_plan \<longrightarrow> out ! k = pointed tilted_plan k"
    by blast
  have "out ! 0 = pointed tilted_plan 0"
    using nth two by blast
  also have "\<dots> = (tilted_plan ! 0)\<lparr>orientation_z := 0, orientation_w := 1\<rparr>"
    unfolding pointed_def b by simp
  also have "\<dots> = (pose_at 0 0)\<lparr>orientation_x := 1 / 5, orientation_y := 2 / 5,
      orientation_z := 0, orientation_w := 1\<rparr>"
    by (simp add: tilted_plan_def)
  finally have o: "out ! 0 = (pose_at 0 0)\<lparr>orientation_x := 1 / 5, orientation_y := 2 / 5,
      orientation_z := 0, orientation_w := 1\<rparr>" .
  have y: "getYaw (out ! 0) = arctan (2 / 11)"
    unfolding o by (simp add: getYaw_def Let_def atan2_def)
  have s: "setPlan sample_env sample_state tilted_plan
            = Inr (True, sample_state\<lparr>has_new_path := True\<rparr>)"
    by (simp add: setPlan_def out sample_state_simps sample_env_def)
  have "arctan (2 / 11) \<noteq> (0 :: real)"
    by (simp add: arctan_eq_zero_iff)
  then have "getYaw (out ! 0) \<noteq> bearing_to_next tilted_plan 0"
    unfolding y b .
  then show ?thesis
    using ne small b out s o y by blast
qed

text \<open>
  C10. On an empty plan an initialized controller reads \<^verbatim>\<open>back()\<close> of an empty vector,
  and the bound \<^verbatim>\<open>size() - 1\<close> of the loop wraps to \<open>2^64 - 1\<close>, so that the loop would index
  the empty vectors at 0. On every non-empty plan \<open>setPlan\<close> is defined. An uninitialized
  controller returns false before it looks at the plan.
\<close>

theorem setPlan_empty:
  "orient_plan [] = Inl BackOfEmptyVector
   \<and> (initialized s \<longrightarrow> setPlan e s [] = Inl BackOfEmptyVector)
   \<and> (\<not> initialized s \<longrightarrow> setPlan e s plan = Inr (False, s))
   \<and> loop_bound [] = - 1 \<and> unat (loop_bound []) = 2 ^ 64 - 1
   \<and> orient_loop plan 0 [] = Inl IndexOutOfRange
   \<and> (plan \<noteq> [] \<and> length plan < 2 ^ 64 \<longrightarrow> (\<exists>oriented_plan. orient_plan plan = Inr oriented_plan))
   \<and> (initialized s \<and> plan \<noteq> [] \<and> length plan < 2 ^ 64
        \<longrightarrow> (\<exists>r. setPlan e s plan = Inr r))"
proof -
  have b: "loop_bound [] = - 1"
    by (simp add: loop_bound_def)
  have u: "unat (loop_bound []) = 2 ^ 64 - 1"
    by (simp add: b unsigned_minus_1_eq_mask mask_eq_exp_minus_1)
  have "(0 :: 64 word) < - 1"
    by (simp add: word_gt_0)
  then have l: "orient_loop plan 0 [] = Inl IndexOutOfRange"
    by (subst orient_loop.simps) (simp add: b)
  have d: "\<exists>oriented_plan. orient_plan plan = Inr oriented_plan"
    if "plan \<noteq> [] \<and> length plan < 2 ^ 64"
    using that orient_plan_result [of plan] by blast
  have t: "\<exists>r. setPlan e s plan = Inr r"
    if "initialized s \<and> plan \<noteq> [] \<and> length plan < 2 ^ 64"
    using that d by (auto simp add: setPlan_def)
  have o: "orient_plan [] = Inl BackOfEmptyVector"
    by (simp add: orient_plan_def)
  have i: "initialized s \<longrightarrow> setPlan e s [] = Inl BackOfEmptyVector"
    by (simp add: setPlan_def o)
  have n: "\<not> initialized s \<longrightarrow> setPlan e s plan = Inr (False, s)"
    by (simp add: setPlan_def)
  show ?thesis
    using b u l d t o i n by blast
qed

theorem setPlan_empty_witness:
  "initialized sample_state \<and> \<not> initialized (sample_state\<lparr>initialized := False\<rparr>)
   \<and> corner_plan \<noteq> [] \<and> length corner_plan < 2 ^ 64
   \<and> setPlan sample_env sample_state [] = Inl BackOfEmptyVector
   \<and> setPlan sample_env (sample_state\<lparr>initialized := False\<rparr>) []
       = Inr (False, sample_state\<lparr>initialized := False\<rparr>)
   \<and> (\<exists>oriented_plan. orient_plan corner_plan = Inr oriented_plan)
   \<and> (\<exists>r. setPlan sample_env sample_state corner_plan = Inr r)"
  using setPlan_empty [of sample_state sample_env corner_plan]
    setPlan_empty [of "sample_state\<lparr>initialized := False\<rparr>" sample_env "[]"]
  by (simp add: sample_state_simps corner_plan_def)

section \<open>The order of the scan\<close>

lemma initial_rotation_keeps:
  assumes "initial_rotation e s pose cmd = (b, s1, cmd1)"
  shows "s1 = s \<or> s1 = s\<lparr>has_new_path := False\<rparr>"
  using assms by (auto simp add: initial_rotation_def Let_def split: if_splits prod.splits)

lemma too_far_initial_rotation:
  assumes "initial_rotation e s pose cmd = (b, s1, cmd1)"
  shows "too_far (configure_max_velocity e s1) p = too_far s p"
  using initial_rotation_keeps [OF assms]
  by (auto simp add: too_far_def configure_max_velocity_def Let_def)

lemma rejected_before_cong:
  "(\<And>p. too_far s' p = too_far s p) \<Longrightarrow> rejected_before s' plan k n = rejected_before s plan k n"
  by (simp add: rejected_before_def)

lemma rejected_before_Suc:
  "k \<le> n \<Longrightarrow> rejected_before s plan k (Suc n) =
     (if too_far s (plan ! Suc n) then [] else [(Suc n, Rejected)]) @ rejected_before s plan k n"
  by (simp add: rejected_before_def)

lemma rejected_before_same [simp]: "rejected_before s plan n n = []"
  by (simp add: rejected_before_def)

lemma scan_shape_exists:
  assumes "scan e o2b b2o plan n s cmd = Some c"
  shows "\<exists>k fin. scan_shape s plan n c k fin"
  using assms
proof (induction n arbitrary: s cmd c)
  case 0
  then have "scan_shape s plan 0 c 0 []"
    by (auto simp add: scan_shape_def leave_def)
  then show ?case by blast
next
  case (Suc n)
  show ?case
  proof (cases "too_far s (plan ! Suc n)")
    case True
    then have "scan e o2b b2o plan n s cmd = Some c"
      using Suc.prems by (simp add: scan.simps(2) Let_def)
    from Suc.IH [OF this] obtain k fin where "scan_shape s plan n c k fin"
      by blast
    then have "scan_shape s plan (Suc n) c k fin"
      using True by (auto simp add: scan_shape_def rejected_before_Suc)
    then show ?thesis by blast
  next
    case False
    obtain b s1 cmd1 where gate:
      "initial_rotation e s (doTransform e (plan ! Suc n) o2b) cmd = (b, s1, cmd1)"
      by (cases "initial_rotation e s (doTransform e (plan ! Suc n) o2b) cmd") auto
    show ?thesis
    proof (cases b)
      case True
      then have "c = leave ReturnTrue cmd1 s1"
        using Suc.prems False gate by (simp add: scan.simps(2) Let_def)
      then have "scan_shape s plan (Suc n) c (Suc n) []"
        using False by (simp add: scan_shape_def leave_def)
      then show ?thesis by blast
    next
      case nb: False
      let ?s2 = "configure_max_velocity e s1"
      let ?sim = "simulate e (the_controller ?s2) (resolution ?s2) b2o
                    (doTransform e (plan ! Suc n) o2b) [] cmd1"
      have unf: "scan e o2b b2o plan (Suc n) s cmd =
        (case ?sim of
           None \<Rightarrow> None
         | Some (ApproachFailed, path, cmd_vel) \<Rightarrow>
             Some (attempted (Suc n) ApproachFailed
               (leave (ReturnFalse UnableToComputeApproach) cmd_vel ?s2))
         | Some (Converged, path, cmd_vel) \<Rightarrow>
             Some (attempted (Suc n) Converged
               ((leave ReturnTrue cmd_vel ?s2)\<lparr>local_plan := Some path\<rparr>))
         | Some (DivisionByZero, path, cmd_vel) \<Rightarrow>
             Some (attempted (Suc n) DivisionByZero (leave UndefinedDivision cmd_vel ?s2))
         | Some (Rejected, path, cmd_vel) \<Rightarrow>
             map_option (attempted (Suc n) Rejected) (scan e o2b b2o plan n ?s2 cmd_vel))"
        using False gate nb by (simp add: scan.simps(2) Let_def)
      obtain x path cmd2 where sim: "?sim = Some (x, path, cmd2)"
        using Suc.prems unfolding unf by (cases ?sim) auto
      show ?thesis
      proof (cases "x = Rejected")
        case True
        have "map_option (attempted (Suc n) Rejected) (scan e o2b b2o plan n ?s2 cmd2) = Some c"
          using Suc.prems unfolding unf sim True by simp
        then obtain c' where c': "scan e o2b b2o plan n ?s2 cmd2 = Some c'"
          and c: "c = attempted (Suc n) Rejected c'"
          by auto
        from Suc.IH [OF c'] obtain k fin where sh: "scan_shape ?s2 plan n c' k fin"
          by blast
        have tf: "too_far ?s2 p = too_far s p" for p
          by (rule too_far_initial_rotation [OF gate])
        have "scan_shape s plan (Suc n) c k fin"
          using sh False c
          by (auto simp add: scan_shape_def rejected_before_Suc attempted_def tf
              rejected_before_cong [of ?s2 s, OF tf])
        then show ?thesis by blast
      next
        case nr: False
        then have "attempts c = [(Suc n, x)] \<and> exit_of c = exit_for x"
          using Suc.prems unfolding unf sim
          by (cases x) (auto simp add: attempted_def leave_def exit_for_def)
        then have "scan_shape s plan (Suc n) c (Suc n) [(Suc n, x)]"
          using False nr by (simp add: scan_shape_def)
        then show ?thesis by blast
      qed
    qed
  qed
qed

lemma set_rejected_before:
  "set (rejected_before s plan k n) = {(j, Rejected) | j. k < j \<and> j \<le> n \<and> \<not> too_far s (plan ! j)}"
  by (auto simp add: rejected_before_def)

lemma sorted_rejected_before: "sorted_wrt (>) (map fst (rejected_before s plan k n))"
proof -
  have "map fst (rejected_before s plan k n) = filter (\<lambda>j. \<not> too_far s (plan ! j)) (rev [Suc k..<Suc n])"
    by (simp add: rejected_before_def comp_def)
  moreover have "sorted_wrt (>) (rev [Suc k..<Suc n])"
    by (simp add: sorted_wrt_rev del: upt_Suc)
  ultimately show ?thesis
    by (simp add: sorted_wrt_filter)
qed

lemma shape_sorted:
  assumes "scan_shape s plan n c k fin"
  shows "sorted_wrt (>) (map fst (attempts c))"
  using assms sorted_rejected_before [of s plan k n]
  by (auto simp add: scan_shape_def sorted_wrt_append set_rejected_before split: if_splits)

lemma shape_within:
  assumes "scan_shape s plan n c k fin" and "(j, x) \<in> set (attempts c)"
  shows "0 < j \<and> j \<le> n \<and> \<not> too_far s (plan ! j)"
  using assms by (auto simp add: scan_shape_def set_rejected_before split: if_splits)

lemma shape_farther_rejected:
  assumes "scan_shape s plan n c k fin" and "(j, x) \<in> set (attempts c)"
    and "j < m" and "m \<le> n" and "\<not> too_far s (plan ! m)"
  shows "(m, Rejected) \<in> set (attempts c)"
  using assms by (auto simp add: scan_shape_def set_rejected_before split: if_splits)

lemma shape_all_rejected:
  assumes "scan_shape s plan n c k fin"
    and "\<forall>m. 0 < m \<and> m \<le> n \<and> \<not> too_far s (plan ! m) \<longrightarrow> (m, Rejected) \<in> set (attempts c)"
  shows "exit_of c = ReturnFalse NoPoseReachable"
proof (cases "k = 0")
  case True
  then show ?thesis using assms(1) by (simp add: scan_shape_def)
next
  case False
  then have "(k, Rejected) \<in> set (attempts c)"
    using assms by (auto simp add: scan_shape_def)
  then show ?thesis
    using assms(1) False by (auto simp add: scan_shape_def set_rejected_before)
qed

lemma shape_approach_failed:
  assumes "scan_shape s plan n c k fin" and "(i, ApproachFailed) \<in> set (attempts c)"
  shows "exit_of c = ReturnFalse UnableToComputeApproach \<and> last (attempts c) = (i, ApproachFailed)
     \<and> (\<forall>(j, x) \<in> set (attempts c). i \<le> j)"
  using assms
  by (auto simp add: scan_shape_def set_rejected_before exit_for_def split: if_splits)

lemma shape_exit:
  assumes "scan_shape s plan n c k fin"
  shows "exit_of c \<in> {ReturnTrue, ReturnFalse NoPoseReachable, ReturnFalse UnableToComputeApproach,
     UndefinedDivision}"
proof -
  have "exit_for x \<in> {ReturnTrue, ReturnFalse NoPoseReachable,
      ReturnFalse UnableToComputeApproach, UndefinedDivision}" for x
    by (cases x) (simp_all add: exit_for_def)
  then show ?thesis
    using assms by (fastforce simp add: scan_shape_def split: if_splits)
qed

lemma exit_for_not_rejected:
  "x \<noteq> Rejected \<Longrightarrow> exit_for x \<noteq> ReturnFalse NoPoseReachable"
  by (cases x) (simp_all add: exit_for_def)

lemma shape_exhausted:
  assumes "scan_shape s plan n c k fin" and "exit_of c = ReturnFalse NoPoseReachable"
  shows "k = 0"
  using assms exit_for_not_rejected by (fastforce simp add: scan_shape_def split: if_splits)

lemma cycle_scan:
  assumes "computeVelocityCommands e s cmd = Some c"
    and "getRobotPose e = Some rp" and "getLocalPlan e rp = Some plan"
  shows "(attempts c = [] \<and> cmd_out c = cmd
           \<and> exit_of c \<in> {ReturnFalse NotInitialized, ReturnFalse EmptyPlan, ReturnFalse NoTransform})
       \<or> (attempts c = [] \<and> exit_of c = ReturnTrue \<and> initialized s \<and> plan \<noteq> []
           \<and> hypot (position_x (last plan) - position_x rp) (position_y (last plan) - position_y rp)
                < xy_goal_tolerance s)
       \<or> (\<exists>o2b. initialized s \<and> plan \<noteq> [] \<and> lookupTransform e = Some o2b
           \<and> \<not> hypot (position_x (last plan) - position_x rp) (position_y (last plan) - position_y rp)
                < xy_goal_tolerance s
           \<and> scan e o2b (tf_inverse e o2b) plan (length plan - 1) (s\<lparr>robot_pose := rp\<rparr>) cmd = Some c)"
  using assms
  by (auto simp add: computeVelocityCommands_def Let_def leave_def
      split: if_splits option.splits prod.splits)

text \<open>
  C4. In every cycle that returns, the rollout loop is entered at plan indices in
  strictly decreasing order, never at index 0; every index at which it is entered is
  within \<open>max_lookahead\<close> of the robot (a pose farther away is skipped without a
  rollout); and before the loop is entered at an index, it was entered, and left by a
  rejection, at every higher index within \<open>max_lookahead\<close>. A scan that ends with no
  reachable pose has gone through every such index down to 1.
\<close>

theorem candidate_scan_order:
  assumes "computeVelocityCommands e s cmd_vel = Some c"
    and "getRobotPose e = Some rp" and "getLocalPlan e rp = Some plan"
  shows "sorted_wrt (>) (map fst (attempts c))
     \<and> (\<forall>(i, x) \<in> set (attempts c).
          0 < i \<and> i < length plan \<and> \<not> too_far (s\<lparr>robot_pose := rp\<rparr>) (plan ! i))
     \<and> (\<forall>(i, x) \<in> set (attempts c). \<forall>j.
          i < j \<and> j < length plan \<and> \<not> too_far (s\<lparr>robot_pose := rp\<rparr>) (plan ! j)
          \<longrightarrow> (j, Rejected) \<in> set (attempts c))
     \<and> (exit_of c = ReturnFalse NoPoseReachable \<longrightarrow> (\<forall>j.
          0 < j \<and> j < length plan \<and> \<not> too_far (s\<lparr>robot_pose := rp\<rparr>) (plan ! j)
          \<longrightarrow> (j, Rejected) \<in> set (attempts c)))"
proof -
  let ?s = "s\<lparr>robot_pose := rp\<rparr>"
  from cycle_scan [OF assms] consider
    (early) "attempts c = []" "exit_of c \<noteq> ReturnFalse NoPoseReachable"
    | (scan) o2b where "plan \<noteq> []"
        "scan e o2b (tf_inverse e o2b) plan (length plan - 1) ?s cmd_vel = Some c"
    by auto
  then show ?thesis
  proof cases
    case early
    then show ?thesis by simp
  next
    case scan
    from scan_shape_exists [OF scan(2)] obtain k fin
      where sh: "scan_shape ?s plan (length plan - 1) c k fin"
      by blast
    have le: "j \<le> length plan - 1 \<longleftrightarrow> j < length plan" for j
      using scan(1) by (cases plan) auto
    have a: "sorted_wrt (>) (map fst (attempts c))"
      by (rule shape_sorted [OF sh])
    have b: "0 < i \<and> i < length plan \<and> \<not> too_far ?s (plan ! i)"
      if "(i, x) \<in> set (attempts c)" for i x
      using shape_within [OF sh that] le by simp
    have c: "(j, Rejected) \<in> set (attempts c)"
      if "(i, x) \<in> set (attempts c)" "i < j \<and> j < length plan \<and> \<not> too_far ?s (plan ! j)"
      for i x j
      using shape_farther_rejected [OF sh that(1), of j] that(2) le by simp
    have d: "(j, Rejected) \<in> set (attempts c)"
      if "exit_of c = ReturnFalse NoPoseReachable"
        "0 < j \<and> j < length plan \<and> \<not> too_far ?s (plan ! j)" for j
    proof -
      have "k = 0"
        using sh that(1) by (rule shape_exhausted)
      then show ?thesis
        using sh that(2) le by (auto simp add: scan_shape_def set_rejected_before)
    qed
    show ?thesis
      using a b c d by blast
  qed
qed

lemma configure_fields [simp]:
  "has_new_path (configure_max_velocity e s) = has_new_path s"
  "initial_rotate_tolerance (configure_max_velocity e s) = initial_rotate_tolerance s"
  "resolution (configure_max_velocity e s) = resolution s"
  "robot_pose (configure_max_velocity e s) = robot_pose s"
  "max_lookahead (configure_max_velocity e s) = max_lookahead s"
  by (simp_all add: configure_max_velocity_def Let_def)

lemma configure_controller [simp]:
  "the_controller (configure_max_velocity e (configure_max_velocity e s))
     = the_controller (configure_max_velocity e s)"
  "the_controller (configure_max_velocity e (s\<lparr>has_new_path := b\<rparr>))
     = the_controller (configure_max_velocity e s)"
  "the_controller (configure_max_velocity e (s\<lparr>robot_pose := rp\<rparr>))
     = the_controller (configure_max_velocity e s)"
  by (simp_all add: configure_max_velocity_def Let_def setVelocityLimits_def)

lemma fst_rotateTowards: "fst (rotateTowards e s pose cmd) = rotate_yaw pose"
  by (simp add: rotateTowards_def Let_def)

lemma initial_rotation_passes:
  assumes "has_new_path s \<and> 0 < initial_rotate_tolerance s
             \<longrightarrow> \<bar>rotate_yaw pose\<bar> < initial_rotate_tolerance s"
  shows "\<exists>s1 cmd1. initial_rotation e s pose cmd = (False, s1, cmd1)
           \<and> (s1 = s \<or> s1 = s\<lparr>has_new_path := False\<rparr>)"
  using assms fst_rotateTowards [of e s pose cmd]
  by (auto simp add: initial_rotation_def Let_def split: prod.splits)

lemma scan_all_rejected:
  assumes "\<forall>i cmd. 0 < i \<and> i \<le> n \<and> \<not> too_far s (plan ! i) \<longrightarrow>
             (\<exists>path cmd'. simulate e ctl res b2o (doTransform e (plan ! i) o2b) [] cmd
                = Some (Rejected, path, cmd'))"
    and "the_controller (configure_max_velocity e s) = ctl" and "resolution s = res"
    and "has_new_path s \<and> 0 < initial_rotate_tolerance s \<longrightarrow>
           (\<forall>i. 0 < i \<and> i \<le> n \<and> \<not> too_far s (plan ! i) \<longrightarrow>
              \<bar>rotate_yaw (doTransform e (plan ! i) o2b)\<bar> < initial_rotate_tolerance s)"
  shows "\<exists>c. scan e o2b b2o plan n s cmd = Some c \<and> exit_of c = ReturnFalse NoPoseReachable"
  using assms
proof (induction n arbitrary: s cmd)
  case 0
  then show ?case by (simp add: leave_def)
next
  case (Suc n)
  show ?case
  proof (cases "too_far s (plan ! Suc n)")
    case True
    have "\<exists>c. scan e o2b b2o plan n s cmd = Some c \<and> exit_of c = ReturnFalse NoPoseReachable"
      using Suc.prems by (intro Suc.IH) auto
    then show ?thesis
      using True by (simp add: scan.simps(2) Let_def)
  next
    case False
    let ?pose = "doTransform e (plan ! Suc n) o2b"
    have "has_new_path s \<and> 0 < initial_rotate_tolerance s
             \<longrightarrow> \<bar>rotate_yaw ?pose\<bar> < initial_rotate_tolerance s"
      using Suc.prems(4) False by auto
    from initial_rotation_passes [OF this, of e cmd]
    obtain s1 cmd1 where gate: "initial_rotation e s ?pose cmd = (False, s1, cmd1)"
      and s1: "s1 = s \<or> s1 = s\<lparr>has_new_path := False\<rparr>"
      by blast
    let ?s2 = "configure_max_velocity e s1"
    have ctl2: "the_controller ?s2 = ctl" and res2: "resolution ?s2 = res"
      using s1 Suc.prems(2,3) by auto
    have tf: "too_far ?s2 p = too_far s p" for p
      by (rule too_far_initial_rotation [OF gate])
    obtain path cmd2 where sim:
      "simulate e (the_controller ?s2) (resolution ?s2) b2o ?pose [] cmd1 = Some (Rejected, path, cmd2)"
      using Suc.prems(1) False ctl2 res2 by (metis le_refl zero_less_Suc)
    have "\<exists>c. scan e o2b b2o plan n ?s2 cmd2 = Some c \<and> exit_of c = ReturnFalse NoPoseReachable"
    proof (rule Suc.IH)
      show "\<forall>i cmd. 0 < i \<and> i \<le> n \<and> \<not> too_far ?s2 (plan ! i) \<longrightarrow>
             (\<exists>path cmd'. simulate e ctl res b2o (doTransform e (plan ! i) o2b) [] cmd
                = Some (Rejected, path, cmd'))"
        using Suc.prems(1) by (simp add: tf)
      show "the_controller (configure_max_velocity e ?s2) = ctl"
        using ctl2 by simp
      show "resolution ?s2 = res"
        by (rule res2)
      show "has_new_path ?s2 \<and> 0 < initial_rotate_tolerance ?s2 \<longrightarrow>
           (\<forall>i. 0 < i \<and> i \<le> n \<and> \<not> too_far ?s2 (plan ! i) \<longrightarrow>
              \<bar>rotate_yaw (doTransform e (plan ! i) o2b)\<bar> < initial_rotate_tolerance ?s2)"
        using s1 Suc.prems(4) by (auto simp add: tf)
    qed
    then obtain c where c: "scan e o2b b2o plan n ?s2 cmd2 = Some c"
      "exit_of c = ReturnFalse NoPoseReachable"
      by blast
    have "scan e o2b b2o plan (Suc n) s cmd = Some (attempted (Suc n) Rejected c)"
      using False gate sim c(1) by (simp add: scan.simps(2) Let_def)
    then show ?thesis
      using c(2) by (simp add: attempted_def)
  qed
qed

lemma hypot_x0 [simp]: "hypot x 0 = \<bar>x\<bar>"
  by (simp add: hypot_def)

lemma sample_env_simps:
  "getRobotPose sample_env = Some (pose_at 0 0)"
  "getLocalPlan sample_env rp = Some sample_plan"
  "lookupTransform sample_env = Some ()"
  "tf_inverse sample_env t = t"
  "doTransform sample_env p t = p"
  "approach sample_env c x y th = Some (1, 0)"
  "worldToMap sample_env x y = None"
  "getBaseFrameID sample_env = ''base_link''"
  by (simp_all add: sample_env_def)

lemma failing_env_simps:
  "getRobotPose failing_env = Some (pose_at 0 0)"
  "getLocalPlan failing_env rp = Some sample_plan"
  "lookupTransform failing_env = Some ()"
  "tf_inverse failing_env t = t"
  "doTransform failing_env p t = p"
  "approach failing_env c x y th = None"
  by (simp_all add: failing_env_def sample_env_def)

lemma sample_rollout:
  "\<exists>path. simulate sample_env ctl 1 () pose [] cmd
     = Some (Rejected, path, cmd\<lparr>linear_x := 1, angular_z := 0\<rparr>)"
  by (subst simulate.simps)
    (simp add: Let_def rollout_error_def generate_next_pose_def sample_env_simps
      split: prod.splits)

lemma simulate_approach_fails:
  assumes "approach e ctl (position_x (fst (rollout_error pose path)))
     (position_y (fst (rollout_error pose path))) (snd (rollout_error pose path)) = None"
  shows "simulate e ctl res base_to_odom pose path cmd_vel = Some (ApproachFailed, path, cmd_vel)"
  using assms by (subst simulate.simps) (auto simp add: Let_def split: prod.splits)

lemma sample_plan_simps:
  "sample_plan \<noteq> []" "length sample_plan - Suc 0 = Suc (Suc (Suc 0))"
  "last sample_plan = pose_at 2 0"
  "sample_plan ! Suc 0 = pose_at (1 / 4) 0" "sample_plan ! Suc (Suc 0) = pose_at (1 / 2) 0"
  "sample_plan ! Suc (Suc (Suc 0)) = pose_at 2 0"
  by (simp_all add: sample_plan_def)

lemma pose_at_simps [simp]:
  "position_x (pose_at x y) = x" "position_y (pose_at x y) = y"
  by (simp_all add: pose_at_def default_pose_def)

lemma sample_far:
  "too_far (sample_state\<lparr>robot_pose := pose_at 0 0\<rparr>) (pose_at 2 0)"
  "\<not> too_far (sample_state\<lparr>robot_pose := pose_at 0 0\<rparr>) (pose_at (1 / 2) 0)"
  "\<not> too_far (sample_state\<lparr>robot_pose := pose_at 0 0\<rparr>) (pose_at (1 / 4) 0)"
  by (simp_all add: too_far_def sample_state_simps)

lemma sample_gate:
  "initial_rotation e (sample_state\<lparr>robot_pose := rp\<rparr>) pose cmd
     = (False, sample_state\<lparr>robot_pose := rp\<rparr>, cmd)"
  by (simp add: initial_rotation_def sample_state_simps)

lemma sample_configure:
  "configure_max_velocity e (sample_state\<lparr>robot_pose := rp\<rparr>) = sample_state\<lparr>robot_pose := rp\<rparr>"
  by (simp add: configure_max_velocity_def sample_state_simps)

lemma sample_cycle:
  "computeVelocityCommands sample_env sample_state still =
     Some \<lparr>exit_of = ReturnFalse NoPoseReachable,
           cmd_out = still\<lparr>linear_x := 1, angular_z := 0\<rparr>,
           state_out = sample_state\<lparr>robot_pose := pose_at 0 0\<rparr>,
           local_plan = None,
           attempts = [(2, Rejected), (1, Rejected)]\<rparr>"
proof -
  let ?s = "sample_state\<lparr>robot_pose := pose_at 0 0\<rparr>"
  obtain p1 where r1: "simulate sample_env (the_controller sample_state) 1 () (pose_at (1 / 2) 0) [] still
     = Some (Rejected, p1, still\<lparr>linear_x := 1, angular_z := 0\<rparr>)"
    using sample_rollout by blast
  obtain p2 where r2: "simulate sample_env (the_controller sample_state) 1 () (pose_at (1 / 4) 0) []
       (still\<lparr>linear_x := 1, angular_z := 0\<rparr>)
     = Some (Rejected, p2, still\<lparr>linear_x := 1, angular_z := 0\<rparr>)"
    using sample_rollout [of "the_controller sample_state" "pose_at (1 / 4) 0"
        "still\<lparr>linear_x := 1, angular_z := 0\<rparr>"] by auto
  have "scan sample_env () () sample_plan (Suc (Suc (Suc 0))) ?s still =
     Some \<lparr>exit_of = ReturnFalse NoPoseReachable,
           cmd_out = still\<lparr>linear_x := 1, angular_z := 0\<rparr>,
           state_out = ?s, local_plan = None,
           attempts = [(2, Rejected), (1, Rejected)]\<rparr>"
    by (simp add: scan.simps(2) Let_def sample_plan_simps sample_far sample_env_simps
        sample_gate sample_configure sample_state_simps r1 r2 attempted_def leave_def)
  then show ?thesis
    by (simp add: computeVelocityCommands_def Let_def sample_env_simps sample_state_simps
        sample_plan_simps)
qed

lemma failing_cycle:
  "computeVelocityCommands failing_env sample_state still =
     Some \<lparr>exit_of = ReturnFalse UnableToComputeApproach,
           cmd_out = still,
           state_out = sample_state\<lparr>robot_pose := pose_at 0 0\<rparr>,
           local_plan = None,
           attempts = [(2, ApproachFailed)]\<rparr>"
proof -
  let ?s = "sample_state\<lparr>robot_pose := pose_at 0 0\<rparr>"
  have r: "simulate failing_env ctl res () pose [] still = Some (ApproachFailed, [], still)"
    for ctl res pose
    by (rule simulate_approach_fails) (simp add: failing_env_simps)
  have "scan failing_env () () sample_plan (Suc (Suc (Suc 0))) ?s still =
     Some \<lparr>exit_of = ReturnFalse UnableToComputeApproach, cmd_out = still,
           state_out = ?s, local_plan = None, attempts = [(2, ApproachFailed)]\<rparr>"
    by (simp add: scan.simps(2) Let_def sample_plan_simps sample_far failing_env_simps
        sample_gate sample_configure r attempted_def leave_def)
  then show ?thesis
    by (simp add: computeVelocityCommands_def Let_def failing_env_simps sample_state_simps
        sample_plan_simps)
qed

lemma cycle_early:
  assumes "computeVelocityCommands e s cmd = Some c"
    and "exit_of c \<in> {ReturnFalse NotInitialized, ReturnFalse NoRobotPose, ReturnFalse NoLocalPlan,
           ReturnFalse EmptyPlan, ReturnFalse NoTransform}"
  shows "cmd_out c = cmd \<and> attempts c = []"
proof -
  have "exit_of c' \<notin> {ReturnFalse NotInitialized, ReturnFalse NoRobotPose, ReturnFalse NoLocalPlan,
           ReturnFalse EmptyPlan, ReturnFalse NoTransform}"
    if "scan e o2b b2o plan n s' cmd = Some c'" for o2b b2o plan n s' c'
    using scan_shape_exists [OF that] shape_exit by fastforce
  then show ?thesis
    using assms
    by (auto simp add: computeVelocityCommands_def Let_def leave_def
        split: if_splits option.splits prod.splits)
qed

text \<open>
  C6 (as the code has it). A cycle that reaches the scan and in which every candidate
  within \<open>max_lookahead\<close> is rejected returns false, and it does return when every rollout
  it starts is left by a rejection and the initial rotation lets the candidates through.
  The failure is told by the returned boolean alone: the failures found before the scan
  leave \<^verbatim>\<open>cmd_vel\<close> as it was, a cycle that fails later may have written it.
\<close>

theorem all_candidates_rejected:
  "(computeVelocityCommands e s cmd_vel = Some c \<and> initialized s \<and> getRobotPose e = Some rp
      \<and> getLocalPlan e rp = Some plan \<and> plan \<noteq> [] \<and> lookupTransform e = Some odom_to_base
      \<and> \<not> hypot (position_x (last plan) - position_x rp) (position_y (last plan) - position_y rp)
             < xy_goal_tolerance s
      \<and> (\<forall>i. 0 < i \<and> i < length plan \<and> \<not> too_far (s\<lparr>robot_pose := rp\<rparr>) (plan ! i)
             \<longrightarrow> (i, Rejected) \<in> set (attempts c))
    \<longrightarrow> exit_of c = ReturnFalse NoPoseReachable)
   \<and> (initialized s \<and> getRobotPose e = Some rp
      \<and> getLocalPlan e rp = Some plan \<and> plan \<noteq> [] \<and> lookupTransform e = Some odom_to_base
      \<and> \<not> hypot (position_x (last plan) - position_x rp) (position_y (last plan) - position_y rp)
             < xy_goal_tolerance s
      \<and> (\<forall>i. 0 < i \<and> i < length plan \<and> \<not> too_far (s\<lparr>robot_pose := rp\<rparr>) (plan ! i)
             \<longrightarrow> (has_new_path s \<and> 0 < initial_rotate_tolerance s
                    \<longrightarrow> \<bar>rotate_yaw (doTransform e (plan ! i) odom_to_base)\<bar>
                          < initial_rotate_tolerance s)
                \<and> (\<forall>cmd. \<exists>path cmd'.
                      simulate e (the_controller (configure_max_velocity e s)) (resolution s)
                        (tf_inverse e odom_to_base) (doTransform e (plan ! i) odom_to_base) [] cmd
                      = Some (Rejected, path, cmd')))
    \<longrightarrow> (\<exists>c'. computeVelocityCommands e s cmd_vel = Some c'
           \<and> exit_of c' = ReturnFalse NoPoseReachable))
   \<and> (computeVelocityCommands e s cmd_vel = Some c
      \<and> exit_of c \<in> {ReturnFalse NotInitialized, ReturnFalse NoRobotPose, ReturnFalse NoLocalPlan,
           ReturnFalse EmptyPlan, ReturnFalse NoTransform}
    \<longrightarrow> cmd_out c = cmd_vel \<and> attempts c = [])"
proof (intro conjI impI)
  let ?s = "s\<lparr>robot_pose := rp\<rparr>"
  assume a: "computeVelocityCommands e s cmd_vel = Some c \<and> initialized s \<and> getRobotPose e = Some rp
      \<and> getLocalPlan e rp = Some plan \<and> plan \<noteq> [] \<and> lookupTransform e = Some odom_to_base
      \<and> \<not> hypot (position_x (last plan) - position_x rp) (position_y (last plan) - position_y rp)
             < xy_goal_tolerance s
      \<and> (\<forall>i. 0 < i \<and> i < length plan \<and> \<not> too_far ?s (plan ! i)
             \<longrightarrow> (i, Rejected) \<in> set (attempts c))"
  then have sc: "scan e odom_to_base (tf_inverse e odom_to_base) plan (length plan - 1) ?s cmd_vel
      = Some c"
    by (auto simp add: computeVelocityCommands_def Let_def)
  from scan_shape_exists [OF sc] obtain k fin
    where sh: "scan_shape ?s plan (length plan - 1) c k fin"
    by blast
  have le: "j \<le> length plan - 1 \<longleftrightarrow> j < length plan" for j
    using a by (cases plan) auto
  show "exit_of c = ReturnFalse NoPoseReachable"
    using a le by (intro shape_all_rejected [OF sh]) auto
next
  let ?s = "s\<lparr>robot_pose := rp\<rparr>"
  assume a: "initialized s \<and> getRobotPose e = Some rp
      \<and> getLocalPlan e rp = Some plan \<and> plan \<noteq> [] \<and> lookupTransform e = Some odom_to_base
      \<and> \<not> hypot (position_x (last plan) - position_x rp) (position_y (last plan) - position_y rp)
             < xy_goal_tolerance s
      \<and> (\<forall>i. 0 < i \<and> i < length plan \<and> \<not> too_far ?s (plan ! i)
             \<longrightarrow> (has_new_path s \<and> 0 < initial_rotate_tolerance s
                    \<longrightarrow> \<bar>rotate_yaw (doTransform e (plan ! i) odom_to_base)\<bar>
                          < initial_rotate_tolerance s)
                \<and> (\<forall>cmd. \<exists>path cmd'.
                      simulate e (the_controller (configure_max_velocity e s)) (resolution s)
                        (tf_inverse e odom_to_base) (doTransform e (plan ! i) odom_to_base) [] cmd
                      = Some (Rejected, path, cmd')))"
  have le: "j \<le> length plan - 1 \<longleftrightarrow> j < length plan" for j
    using a by (cases plan) auto
  have "\<exists>c'. scan e odom_to_base (tf_inverse e odom_to_base) plan (length plan - 1) ?s cmd_vel
      = Some c' \<and> exit_of c' = ReturnFalse NoPoseReachable"
  proof (rule scan_all_rejected)
    show "\<forall>i cmd. 0 < i \<and> i \<le> length plan - 1 \<and> \<not> too_far ?s (plan ! i) \<longrightarrow>
        (\<exists>path cmd'. simulate e (the_controller (configure_max_velocity e s)) (resolution s)
           (tf_inverse e odom_to_base) (doTransform e (plan ! i) odom_to_base) [] cmd
           = Some (Rejected, path, cmd'))"
      using a le by auto
    show "the_controller (configure_max_velocity e ?s) = the_controller (configure_max_velocity e s)"
      by simp
    show "resolution ?s = resolution s"
      by simp
    show "has_new_path ?s \<and> 0 < initial_rotate_tolerance ?s \<longrightarrow>
        (\<forall>i. 0 < i \<and> i \<le> length plan - 1 \<and> \<not> too_far ?s (plan ! i) \<longrightarrow>
           \<bar>rotate_yaw (doTransform e (plan ! i) odom_to_base)\<bar> < initial_rotate_tolerance ?s)"
      using a le by auto
  qed
  then show "\<exists>c'. computeVelocityCommands e s cmd_vel = Some c'
           \<and> exit_of c' = ReturnFalse NoPoseReachable"
    using a by (simp add: computeVelocityCommands_def Let_def)
next
  assume "computeVelocityCommands e s cmd_vel = Some c
      \<and> exit_of c \<in> {ReturnFalse NotInitialized, ReturnFalse NoRobotPose, ReturnFalse NoLocalPlan,
           ReturnFalse EmptyPlan, ReturnFalse NoTransform}"
  then have "cmd_out c = cmd_vel \<and> attempts c = []"
    using cycle_early [of e s cmd_vel c] by blast
  then show "cmd_out c = cmd_vel" and "attempts c = []"
    by simp_all
qed

text \<open>
  C7. When \<^verbatim>\<open>approach\<close> fails at a step of a rollout, the rollout is left at once; a
  scan whose rollout at an index is left this way returns false there, without going on
  to a lower index; and in a cycle that returns, a rollout left by a failure of
  \<^verbatim>\<open>approach\<close> is the last one: the cycle returns false and no closer candidate was tried.
\<close>

theorem approach_failure_aborts:
  "(approach e ctl (position_x (fst (rollout_error pose path)))
       (position_y (fst (rollout_error pose path))) (snd (rollout_error pose path)) = None
    \<longrightarrow> simulate e ctl res base_to_odom pose path cmd_vel = Some (ApproachFailed, path, cmd_vel))
   \<and> (\<not> too_far s (plan ! Suc j)
      \<and> initial_rotation e s (doTransform e (plan ! Suc j) odom_to_base) cmd_vel = (False, s1, cmd1)
      \<and> simulate e (the_controller (configure_max_velocity e s1))
          (resolution (configure_max_velocity e s1)) base_to_odom
          (doTransform e (plan ! Suc j) odom_to_base) [] cmd1 = Some (ApproachFailed, path', cmd2)
    \<longrightarrow> scan e odom_to_base base_to_odom plan (Suc j) s cmd_vel =
          Some (attempted (Suc j) ApproachFailed
            (leave (ReturnFalse UnableToComputeApproach) cmd2 (configure_max_velocity e s1))))
   \<and> (computeVelocityCommands e s cmd_vel = Some c \<and> (i, ApproachFailed) \<in> set (attempts c)
    \<longrightarrow> exit_of c = ReturnFalse UnableToComputeApproach
        \<and> last (attempts c) = (i, ApproachFailed)
        \<and> (\<forall>(k, x) \<in> set (attempts c). i \<le> k))"
proof (intro conjI impI)
  assume "approach e ctl (position_x (fst (rollout_error pose path)))
       (position_y (fst (rollout_error pose path))) (snd (rollout_error pose path)) = None"
  then show "simulate e ctl res base_to_odom pose path cmd_vel = Some (ApproachFailed, path, cmd_vel)"
    by (rule simulate_approach_fails)
next
  assume "\<not> too_far s (plan ! Suc j)
      \<and> initial_rotation e s (doTransform e (plan ! Suc j) odom_to_base) cmd_vel = (False, s1, cmd1)
      \<and> simulate e (the_controller (configure_max_velocity e s1))
          (resolution (configure_max_velocity e s1)) base_to_odom
          (doTransform e (plan ! Suc j) odom_to_base) [] cmd1 = Some (ApproachFailed, path', cmd2)"
  then show "scan e odom_to_base base_to_odom plan (Suc j) s cmd_vel =
          Some (attempted (Suc j) ApproachFailed
            (leave (ReturnFalse UnableToComputeApproach) cmd2 (configure_max_velocity e s1)))"
    by (simp add: scan.simps(2) Let_def)
next
  assume a: "computeVelocityCommands e s cmd_vel = Some c \<and> (i, ApproachFailed) \<in> set (attempts c)"
  then obtain o2b b2o plan n s' where "scan e o2b b2o plan n s' cmd_vel = Some c"
    by (auto simp add: computeVelocityCommands_def Let_def leave_def
        split: if_splits option.splits prod.splits)
  from scan_shape_exists [OF this] obtain k fin where sh: "scan_shape s' plan n c k fin"
    by blast
  from shape_approach_failed [OF sh] a
  have r: "exit_of c = ReturnFalse UnableToComputeApproach \<and> last (attempts c) = (i, ApproachFailed)
     \<and> (\<forall>(j, x) \<in> set (attempts c). i \<le> j)"
    by blast
  from r show "exit_of c = ReturnFalse UnableToComputeApproach" by simp
  from r show "last (attempts c) = (i, ApproachFailed)" by simp
  from r show "\<forall>(k, x) \<in> set (attempts c). i \<le> k" by simp
qed

lemma sample_plan_index:
  "i < length sample_plan \<longleftrightarrow> i = 0 \<or> i = 1 \<or> i = 2 \<or> i = 3"
  by (auto simp add: sample_plan_def)

lemma sample_plan_nth:
  "sample_plan ! 1 = pose_at (1 / 4) 0" "sample_plan ! 2 = pose_at (1 / 2) 0"
  "sample_plan ! 3 = pose_at 2 0"
  by (simp_all add: sample_plan_def)

lemma sample_cycle_result:
  "computeVelocityCommands sample_env sample_state still = Some sample_result"
  by (simp add: sample_cycle sample_result_def)

lemma failing_cycle_result:
  "computeVelocityCommands failing_env sample_state still = Some failing_result"
  by (simp add: failing_cycle failing_result_def)

lemma uninitialized_cycle:
  "computeVelocityCommands e (s\<lparr>initialized := False\<rparr>) cmd
     = Some (leave (ReturnFalse NotInitialized) cmd (s\<lparr>initialized := False\<rparr>))"
  by (simp add: computeVelocityCommands_def)

text \<open>
  On the sample plan the last pose is beyond the lookahead and is skipped; indices 2 and
  1 are tried in this order and both rejected.
\<close>

theorem candidate_scan_order_witness:
  "computeVelocityCommands sample_env sample_state still = Some sample_result
   \<and> getRobotPose sample_env = Some (pose_at 0 0)
   \<and> getLocalPlan sample_env (pose_at 0 0) = Some sample_plan
   \<and> exit_of sample_result = ReturnFalse NoPoseReachable
   \<and> length sample_plan = 4
   \<and> too_far (sample_state\<lparr>robot_pose := pose_at 0 0\<rparr>) (sample_plan ! 3)
   \<and> \<not> too_far (sample_state\<lparr>robot_pose := pose_at 0 0\<rparr>) (sample_plan ! 2)
   \<and> \<not> too_far (sample_state\<lparr>robot_pose := pose_at 0 0\<rparr>) (sample_plan ! 1)
   \<and> map fst (attempts sample_result) = [2, 1]
   \<and> sorted_wrt (>) (map fst (attempts sample_result))
   \<and> (2, Rejected) \<in> set (attempts sample_result)
   \<and> (1, Rejected) \<in> set (attempts sample_result)"
proof -
  let ?s = "sample_state\<lparr>robot_pose := pose_at 0 0\<rparr>"
  have far: "too_far ?s (sample_plan ! 3)" "\<not> too_far ?s (sample_plan ! 2)"
    "\<not> too_far ?s (sample_plan ! 1)"
    by (simp_all add: sample_plan_nth sample_plan_simps sample_far)
  have ex: "exit_of sample_result = ReturnFalse NoPoseReachable"
    and at: "map fst (attempts sample_result) = [2, 1]"
    and len: "length sample_plan = 4"
    by (simp_all add: sample_result_def sample_plan_def)
  note inst = candidate_scan_order [OF sample_cycle_result sample_env_simps(1) sample_env_simps(2)]
  have srt: "sorted_wrt (>) (map fst (attempts sample_result))"
    using inst by blast
  have all: "\<forall>j. 0 < j \<and> j < length sample_plan \<and> \<not> too_far ?s (sample_plan ! j)
        \<longrightarrow> (j, Rejected) \<in> set (attempts sample_result)"
    using inst ex by blast
  have m2: "(2, Rejected) \<in> set (attempts sample_result)"
    using all [rule_format, of 2] far(2) len by simp
  have m1: "(1, Rejected) \<in> set (attempts sample_result)"
    using all [rule_format, of 1] far(3) len by simp
  show ?thesis
    using sample_cycle_result sample_env_simps(1,2) ex len far at srt m2 m1 by blast
qed

text \<open>The sample cycle rejects both candidates; an uninitialized controller fails early.\<close>

theorem all_candidates_rejected_witness:
  "computeVelocityCommands sample_env sample_state still = Some sample_result
   \<and> initialized sample_state \<and> getRobotPose sample_env = Some (pose_at 0 0)
   \<and> getLocalPlan sample_env (pose_at 0 0) = Some sample_plan \<and> sample_plan \<noteq> []
   \<and> lookupTransform sample_env = Some ()
   \<and> \<not> hypot (position_x (last sample_plan) - position_x (pose_at 0 0))
          (position_y (last sample_plan) - position_y (pose_at 0 0))
        < xy_goal_tolerance sample_state
   \<and> length sample_plan = 4
   \<and> too_far (sample_state\<lparr>robot_pose := pose_at 0 0\<rparr>) (sample_plan ! 3)
   \<and> (2, Rejected) \<in> set (attempts sample_result)
   \<and> (1, Rejected) \<in> set (attempts sample_result)
   \<and> (\<exists>path cmd'.
         simulate sample_env (the_controller (configure_max_velocity sample_env sample_state))
           (resolution sample_state) (tf_inverse sample_env ())
           (doTransform sample_env (sample_plan ! 2) ()) [] still
         = Some (Rejected, path, cmd'))
   \<and> \<not> has_new_path sample_state
   \<and> exit_of sample_result = ReturnFalse NoPoseReachable
   \<and> computeVelocityCommands sample_env (sample_state\<lparr>initialized := False\<rparr>) still
       = Some (leave (ReturnFalse NotInitialized) still (sample_state\<lparr>initialized := False\<rparr>))
   \<and> cmd_out (leave (ReturnFalse NotInitialized) still (sample_state\<lparr>initialized := False\<rparr>))
       = still"
proof -
  let ?s = "sample_state\<lparr>robot_pose := pose_at 0 0\<rparr>"
  have goal_far: "\<not> hypot (position_x (last sample_plan) - position_x (pose_at 0 0))
          (position_y (last sample_plan) - position_y (pose_at 0 0))
        < xy_goal_tolerance sample_state"
    by (simp add: sample_plan_simps sample_state_simps)
  have len: "length sample_plan = 4"
    by (simp add: sample_plan_def)
  have far: "too_far ?s (sample_plan ! 3)"
    by (simp add: sample_plan_nth sample_far)
  have m: "(2, Rejected) \<in> set (attempts sample_result)"
    "(1, Rejected) \<in> set (attempts sample_result)"
    by (simp_all add: sample_result_def)
  have rej: "(i, Rejected) \<in> set (attempts sample_result)"
    if "0 < i \<and> i < length sample_plan \<and> \<not> too_far ?s (sample_plan ! i)" for i
    using that far m by (auto simp add: sample_plan_index)
  have sim: "\<exists>path cmd'.
       simulate sample_env (the_controller (configure_max_velocity sample_env sample_state))
         (resolution sample_state) (tf_inverse sample_env ())
         (doTransform sample_env (sample_plan ! i) ()) [] cmd
       = Some (Rejected, path, cmd')" for i cmd
    using sample_rollout [of "the_controller (configure_max_velocity sample_env sample_state)"
        "sample_plan ! i" cmd]
    by (auto simp add: sample_state_simps sample_env_simps)
  have gate: "\<not> has_new_path sample_state"
    by (simp add: sample_state_simps)
  note inst = all_candidates_rejected [of sample_env sample_state still sample_result
      "pose_at 0 0" sample_plan "()"]
  have "exit_of sample_result = ReturnFalse NoPoseReachable"
    using inst sample_cycle_result sample_state_simps(1) sample_env_simps(1,2,3)
      sample_plan_simps(1) goal_far rej by blast
  moreover have "cmd_out (leave (ReturnFalse NotInitialized) still
      (sample_state\<lparr>initialized := False\<rparr>)) = still"
    using all_candidates_rejected [of sample_env "sample_state\<lparr>initialized := False\<rparr>" still
        "leave (ReturnFalse NotInitialized) still (sample_state\<lparr>initialized := False\<rparr>)"]
      uninitialized_cycle [of sample_env sample_state still]
    by (simp add: leave_def)
  ultimately show ?thesis
    using sample_cycle_result sample_state_simps(1) sample_env_simps(1,2,3)
      sample_plan_simps(1) goal_far len far m sim [of 2 still] gate
      uninitialized_cycle [of sample_env sample_state still]
    by blast
qed

text \<open>
  The sample cycle returns false after two rejections, and \<^verbatim>\<open>cmd_vel\<close>, zero before the
  call, holds the first-step command \<open>(1, 0)\<close> of a rejected candidate.
\<close>

theorem all_candidates_rejected_counterexample:
  "computeVelocityCommands sample_env sample_state still = Some sample_result
   \<and> exit_of sample_result = ReturnFalse NoPoseReachable
   \<and> attempts sample_result = [(2, Rejected), (1, Rejected)]
   \<and> linear_x (cmd_out sample_result) = 1 \<and> linear_x still = 0"
  by (simp add: sample_cycle_result) (simp add: sample_result_def still_def)

text \<open>
  With a steering law that always fails, the sample cycle tries index 2 and returns
  false; index 1, also within the lookahead, is never tried.
\<close>

theorem approach_failure_aborts_witness:
  "approach failing_env (the_controller sample_state)
       (position_x (fst (rollout_error (pose_at (1 / 2) 0) [])))
       (position_y (fst (rollout_error (pose_at (1 / 2) 0) [])))
       (snd (rollout_error (pose_at (1 / 2) 0) [])) = None
   \<and> simulate failing_env (the_controller sample_state) 1 () (pose_at (1 / 2) 0) [] still
       = Some (ApproachFailed, [], still)
   \<and> \<not> too_far (sample_state\<lparr>robot_pose := pose_at 0 0\<rparr>) (sample_plan ! Suc 1)
   \<and> scan failing_env () () sample_plan (Suc 1) (sample_state\<lparr>robot_pose := pose_at 0 0\<rparr>) still
       = Some failing_result
   \<and> computeVelocityCommands failing_env sample_state still = Some failing_result
   \<and> (2, ApproachFailed) \<in> set (attempts failing_result)
   \<and> exit_of failing_result = ReturnFalse UnableToComputeApproach
   \<and> last (attempts failing_result) = (2, ApproachFailed)
   \<and> \<not> too_far (sample_state\<lparr>robot_pose := pose_at 0 0\<rparr>) (sample_plan ! 1)
   \<and> attempts failing_result = [(2, ApproachFailed)]"
proof -
  let ?s = "sample_state\<lparr>robot_pose := pose_at 0 0\<rparr>"
  have h1: "approach failing_env (the_controller sample_state)
       (position_x (fst (rollout_error (pose_at (1 / 2) 0) [])))
       (position_y (fst (rollout_error (pose_at (1 / 2) 0) [])))
       (snd (rollout_error (pose_at (1 / 2) 0) [])) = None"
    by (simp add: failing_env_simps)
  have near: "\<not> too_far ?s (sample_plan ! Suc 1)" "\<not> too_far ?s (sample_plan ! 1)"
    by (simp_all add: sample_plan_def sample_far)
  have gate: "initial_rotation failing_env ?s (doTransform failing_env (sample_plan ! Suc 1) ()) still
      = (False, ?s, still)"
    by (rule sample_gate)
  have mem: "(2, ApproachFailed) \<in> set (attempts failing_result)"
    by (simp add: failing_result_def)
  note inst = approach_failure_aborts [where e = failing_env
      and ctl = "the_controller sample_state" and pose = "pose_at (1 / 2) 0" and path = "[]"
      and res = 1 and base_to_odom = "()" and cmd_vel = still and s = ?s and plan = sample_plan
      and j = 1 and odom_to_base = "()" and ?s1.0 = ?s and ?cmd1.0 = still and path' = "[]"
      and ?cmd2.0 = still]
  note inst' = approach_failure_aborts [where e = failing_env and s = sample_state
      and cmd_vel = still and c = failing_result and i = 2]
  have sim: "simulate failing_env (the_controller sample_state) 1 () (pose_at (1 / 2) 0) [] still
       = Some (ApproachFailed, [], still)"
    using inst h1 by blast
  have sim': "simulate failing_env (the_controller (configure_max_velocity failing_env ?s))
          (resolution (configure_max_velocity failing_env ?s)) ()
          (doTransform failing_env (sample_plan ! Suc 1) ()) [] still = Some (ApproachFailed, [], still)"
    using sim by (simp add: sample_configure sample_state_simps failing_env_simps sample_plan_def)
  have sc: "scan failing_env () () sample_plan (Suc 1) ?s still = Some failing_result"
    using inst near(1) gate sim'
    by (simp add: sample_configure attempted_def leave_def failing_result_def)
  have "exit_of failing_result = ReturnFalse UnableToComputeApproach
        \<and> last (attempts failing_result) = (2, ApproachFailed)
        \<and> (\<forall>(k, x) \<in> set (attempts failing_result). 2 \<le> k)"
    using inst' failing_cycle_result mem by blast
  moreover have "attempts failing_result = [(2, ApproachFailed)]"
    by (simp add: failing_result_def)
  ultimately show ?thesis
    using h1 sim near sc failing_cycle_result mem by blast
qed

section \<open>The rollout loop\<close>

lemma generate_next_pose_None:
  "generate_next_pose e res path vel_x vel_th = None \<longleftrightarrow> vel_x = 0"
  by (simp add: generate_next_pose_def Let_def)

lemma simulate_left_by:
  assumes "simulate e ctl res base_to_odom pose path cmd_vel = Some r"
  shows "left_by e ctl res base_to_odom pose (fst (snd r)) (fst r)"
  using assms
proof (induction rule: simulate.raw_induct [rotated 1, consumes 1])
  case (1 sim e ctl res base_to_odom pose path cmd_vel r)
  obtain error error_angle where er: "rollout_error pose path = (error, error_angle)"
    by (cases "rollout_error pose path") auto
  show ?case
  proof (cases "approach e ctl (position_x error) (position_y error) error_angle")
    case None
    then have "r = (ApproachFailed, path, cmd_vel)"
      using "1.hyps" er by simp
    then show ?thesis
      using None er by (simp add: left_by_def)
  next
    case (Some v)
    obtain vel_x vel_th where v: "v = (vel_x, vel_th)"
      by (cases v) auto
    let ?cmd = "if path = [] then cmd_vel\<lparr>linear_x := vel_x, angular_z := vel_th\<rparr> else cmd_vel"
    show ?thesis
    proof (cases "path \<noteq> [] \<and> hypot (position_x error) (position_y error) < res")
      case True
      then have "r = (Converged, path, ?cmd)"
        using "1.hyps" er Some v by (simp add: Let_def)
      then show ?thesis
        using True Some er by (simp add: left_by_def)
    next
      case far: False
      show ?thesis
      proof (cases "generate_next_pose e res path vel_x vel_th")
        case None
        then have "r = (DivisionByZero, path, ?cmd)"
          using "1.hyps" er Some v far by (auto simp add: Let_def)
        moreover have "vel_x = 0"
          using None by (simp add: generate_next_pose_None)
        ultimately show ?thesis
          using far Some v er by (auto simp add: left_by_def)
      next
        case np: (Some next_pose)
        let ?q = "doTransform e next_pose base_to_odom"
        have unf: "(case worldToMap e (position_x ?q) (position_y ?q) of
              None \<Rightarrow> Some (Rejected, path @ [next_pose], ?cmd)
            | Some (mx, my) \<Rightarrow>
                if getCost e mx my \<ge> INSCRIBED_INFLATED_OBSTACLE
                then Some (Rejected, path @ [next_pose], ?cmd)
                else sim e ctl res base_to_odom pose (path @ [next_pose]) ?cmd) = Some r"
          using "1.hyps" er Some v far np by (auto simp add: Let_def)
        show ?thesis
        proof (cases "worldToMap e (position_x ?q) (position_y ?q)")
          case None
          then have "r = (Rejected, path @ [next_pose], ?cmd)"
            using unf by simp
          then show ?thesis
            using None by (simp add: left_by_def Let_def split: prod.splits)
        next
          case cell: (Some m)
          obtain mx my where m: "m = (mx, my)"
            by (cases m) auto
          show ?thesis
          proof (cases "getCost e mx my \<ge> INSCRIBED_INFLATED_OBSTACLE")
            case True
            then have "r = (Rejected, path @ [next_pose], ?cmd)"
              using unf cell m by simp
            then show ?thesis
              using True cell m by (simp add: left_by_def Let_def split: prod.splits)
          next
            case False
            then have "sim e ctl res base_to_odom pose (path @ [next_pose]) ?cmd = Some r"
              using unf cell m by simp
            then show ?thesis
              by (rule "1.IH")
          qed
        qed
      qed
    qed
  qed
qed

lemma open_env_simps:
  "doTransform open_env p t = p"
  "approach open_env c x y th = Some (1, 0)"
  "worldToMap open_env x y = Some (0, 0)"
  "getCost open_env mx my = 0"
  "getBaseFrameID open_env = ''base_link''"
  by (simp_all add: open_env_def sample_env_def)

lemma spin_env_simps:
  "doTransform spin_env p t = p"
  "approach spin_env c x y th = Some (1, pi)"
  "worldToMap spin_env x y = Some (0, 0)"
  "getCost spin_env mx my = 0"
  "getBaseFrameID spin_env = ''base_link''"
  by (simp_all add: spin_env_def open_env_def sample_env_def)

lemma free_cell: "\<not> INSCRIBED_INFLATED_OBSTACLE \<le> 0" "INSCRIBED_INFLATED_OBSTACLE \<noteq> 0"
  by (simp_all add: INSCRIBED_INFLATED_OBSTACLE_def)

lemma simulate_converges:
  assumes "rollout_error pose path = (error, error_angle)"
    and "approach e ctl (position_x error) (position_y error) error_angle = Some (vel_x, vel_th)"
    and "path \<noteq> []" and "hypot (position_x error) (position_y error) < res"
  shows "simulate e ctl res base_to_odom pose path cmd_vel = Some (Converged, path, cmd_vel)"
  using assms by (subst simulate.simps) (simp add: Let_def)

lemma simulate_divides:
  assumes "rollout_error pose path = (error, error_angle)"
    and "approach e ctl (position_x error) (position_y error) error_angle = Some (0, vel_th)"
    and "\<not> (path \<noteq> [] \<and> hypot (position_x error) (position_y error) < res)"
  shows "simulate e ctl res base_to_odom pose path cmd_vel =
     Some (DivisionByZero, path,
       if path = [] then cmd_vel\<lparr>linear_x := 0, angular_z := vel_th\<rparr> else cmd_vel)"
  using assms
  by (subst simulate.simps) (auto simp add: Let_def generate_next_pose_def)

lemma getYaw_stride: "getYaw (stride x) = 0"
  by (simp add: getYaw_def stride_def default_pose_def atan2_def)

lemma stride_simps [simp]: "position_x (stride x) = x" "position_y (stride x) = 0"
  by (simp_all add: stride_def default_pose_def)

lemma next_stride_first: "generate_next_pose open_env 1 [] 1 0 = Some (stride 1)"
  by (simp add: generate_next_pose_def Let_def open_env_simps getYaw_def atan2_def
      stride_def default_pose_def)

lemma next_stride:
  "path \<noteq> [] \<Longrightarrow> last path = stride x \<Longrightarrow>
     generate_next_pose open_env 1 path 1 0 = Some (stride (x + 1))"
  by (simp add: generate_next_pose_def Let_def getYaw_stride) (simp add: stride_def default_pose_def)

lemma error_stride:
  assumes "path \<noteq> []" and "last path = stride x"
  shows "\<exists>error error_angle. rollout_error (pose_at t 0) path = (error, error_angle)
     \<and> position_x error = t - x \<and> position_y error = 0"
  using assms by (simp add: rollout_error_def Let_def getYaw_stride)

lemma march:
  assumes "path \<noteq> []" and "last path = stride (real k)" and "length path = k" and "k \<le> n"
  shows "\<exists>path'. simulate open_env ctl 1 () (pose_at (real n + 1 / 2) 0) path cmd
           = Some (Converged, path', cmd) \<and> length path' = n"
  using assms
proof (induction "n - k" arbitrary: k path)
  case 0
  then have k: "k = n" by simp
  from error_stride [OF "0.prems"(1,2), of "real n + 1 / 2"]
  obtain error error_angle
    where er: "rollout_error (pose_at (real n + 1 / 2) 0) path = (error, error_angle)"
      and ex: "position_x error = real n + 1 / 2 - real k" and ey: "position_y error = 0"
    by blast
  have "hypot (position_x error) (position_y error) < 1"
    by (simp add: ex ey k)
  then have "simulate open_env ctl 1 () (pose_at (real n + 1 / 2) 0) path cmd
      = Some (Converged, path, cmd)"
    using er "0.prems"(1) by (intro simulate_converges [where vel_x = 1 and vel_th = 0])
      (simp_all add: open_env_simps)
  then show ?case
    using "0.prems"(3) k by simp
next
  case (Suc d)
  then have lt: "k < n" by simp
  let ?path = "path @ [stride (real k + 1)]"
  from error_stride [OF Suc.prems(1,2), of "real n + 1 / 2"]
  obtain error error_angle
    where er: "rollout_error (pose_at (real n + 1 / 2) 0) path = (error, error_angle)"
      and ex: "position_x error = real n + 1 / 2 - real k" and ey: "position_y error = 0"
    by blast
  have far: "\<not> (path \<noteq> [] \<and> hypot (position_x error) (position_y error) < 1)"
    using lt by (simp add: ex ey)
  have ap: "approach open_env ctl (position_x error) (position_y error) error_angle = Some (1, 0)"
    by (simp add: open_env_simps)
  have step: "simulate open_env ctl 1 () (pose_at (real n + 1 / 2) 0) path cmd
      = simulate open_env ctl 1 () (pose_at (real n + 1 / 2) 0) ?path cmd"
    using Suc.prems(1)
    by (subst simulate_step [OF er ap far next_stride [OF Suc.prems(1,2)]])
      (simp add: Let_def open_env_simps free_cell)
  have "\<exists>path'. simulate open_env ctl 1 () (pose_at (real n + 1 / 2) 0) ?path cmd
           = Some (Converged, path', cmd) \<and> length path' = n"
  proof (rule Suc.hyps(1))
    show "d = n - Suc k" using Suc.hyps(2) by simp
    show "?path \<noteq> []" by simp
    show "last ?path = stride (real (Suc k))" by (simp add: add.commute)
    show "length ?path = Suc k" using Suc.prems(3) by simp
    show "Suc k \<le> n" using lt by simp
  qed
  then show ?case
    by (simp add: step)
qed

lemma march_from_origin:
  assumes "0 < n"
  shows "\<exists>path cmd. simulate open_env ctl 1 () (pose_at (real n + 1 / 2) 0) [] still
           = Some (Converged, path, cmd) \<and> length path = n"
proof -
  let ?cmd = "still\<lparr>linear_x := 1, angular_z := 0\<rparr>"
  obtain error error_angle
    where er: "rollout_error (pose_at (real n + 1 / 2) 0) [] = (error, error_angle)"
    by (cases "rollout_error (pose_at (real n + 1 / 2) 0) []") auto
  have ap: "approach open_env ctl (position_x error) (position_y error) error_angle = Some (1, 0)"
    by (simp add: open_env_simps)
  have far: "\<not> (([] :: pose_stamped list) \<noteq> []
      \<and> hypot (position_x error) (position_y error) < 1)"
    by simp
  have step: "simulate open_env ctl 1 () (pose_at (real n + 1 / 2) 0) [] still
      = simulate open_env ctl 1 () (pose_at (real n + 1 / 2) 0) [stride 1] ?cmd"
    by (subst simulate_step [OF er ap far next_stride_first])
      (simp add: Let_def open_env_simps free_cell)
  have "\<exists>path'. simulate open_env ctl 1 () (pose_at (real n + 1 / 2) 0) [stride 1] ?cmd
           = Some (Converged, path', ?cmd) \<and> length path' = n"
    using assms by (intro march [where k = 1]) simp_all
  then show ?thesis
    by (auto simp add: step)
qed

lemma getYaw_turn: "getYaw turn1 = pi" "getYaw turn2 = 0"
  by (simp_all add: getYaw_def turn1_def turn2_def stride_def default_pose_def atan2_def)

lemma turn_simps [simp]:
  "position_x turn1 = 1" "position_y turn1 = 0" "position_x turn2 = 0" "position_y turn2 = 0"
  by (simp_all add: turn1_def turn2_def)

lemma next_turn:
  "generate_next_pose spin_env 1 [] 1 pi = Some turn1"
  "path \<noteq> [] \<and> last path = turn1 \<Longrightarrow> generate_next_pose spin_env 1 path 1 pi = Some turn2"
  "path \<noteq> [] \<and> last path = turn2 \<Longrightarrow> generate_next_pose spin_env 1 path 1 pi = Some turn1"
proof -
  show "generate_next_pose spin_env 1 [] 1 pi = Some turn1"
    by (simp add: generate_next_pose_def Let_def spin_env_simps getYaw_def atan2_def
        turn1_def stride_def default_pose_def)
  show "generate_next_pose spin_env 1 path 1 pi = Some turn2"
    if "path \<noteq> [] \<and> last path = turn1"
    using that by (simp add: generate_next_pose_def Let_def getYaw_turn)
      (simp add: turn1_def turn2_def stride_def default_pose_def)
  show "generate_next_pose spin_env 1 path 1 pi = Some turn1"
    if "path \<noteq> [] \<and> last path = turn2"
    using that by (simp add: generate_next_pose_def Let_def getYaw_turn)
      (simp add: turn1_def turn2_def stride_def default_pose_def)
qed

lemma error_turn:
  "path \<noteq> [] \<and> last path = turn1 \<Longrightarrow>
     \<not> hypot (position_x (fst (rollout_error (pose_at 0 5) path)))
         (position_y (fst (rollout_error (pose_at 0 5) path))) < 1"
  "path \<noteq> [] \<and> last path = turn2 \<Longrightarrow>
     \<not> hypot (position_x (fst (rollout_error (pose_at 0 5) path)))
         (position_y (fst (rollout_error (pose_at 0 5) path))) < 1"
  by (simp_all add: rollout_error_def Let_def getYaw_turn hypot_def)

lemma spin_invariant:
  assumes "simulate e ctl res base_to_odom pose path cmd_vel = Some r"
  shows "\<not> (e = spin_env \<and> res = 1 \<and> pose = pose_at 0 5
            \<and> (path = [] \<or> last path = turn1 \<or> last path = turn2))"
  using assms
proof (induction rule: simulate.raw_induct [rotated 1, consumes 1])
  case (1 sim e ctl res base_to_odom pose path cmd_vel r)
  show ?case
  proof
    assume inv: "e = spin_env \<and> res = 1 \<and> pose = pose_at 0 5
            \<and> (path = [] \<or> last path = turn1 \<or> last path = turn2)"
    then consider (start) "path = []" | (one) "path \<noteq> [] \<and> last path = turn1"
      | (two) "path \<noteq> [] \<and> last path = turn2"
      by blast
    then have "\<exists>np cmd. (np = turn1 \<or> np = turn2)
        \<and> sim spin_env ctl 1 base_to_odom (pose_at 0 5) (path @ [np]) cmd = Some r"
    proof cases
      case start
      then show ?thesis
        using "1.hyps" inv next_turn(1)
        by (auto simp add: Let_def spin_env_simps free_cell split: prod.splits)
    next
      case one
      then show ?thesis
        using "1.hyps" inv next_turn(2) [OF one] error_turn(1) [OF one]
        by (auto simp add: Let_def spin_env_simps free_cell split: prod.splits)
    next
      case two
      then show ?thesis
        using "1.hyps" inv next_turn(3) [OF two] error_turn(2) [OF two]
        by (auto simp add: Let_def spin_env_simps free_cell split: prod.splits)
    qed
    then obtain np cmd where np: "np = turn1 \<or> np = turn2"
      and run: "sim spin_env ctl 1 base_to_odom (pose_at 0 5) (path @ [np]) cmd = Some r"
      by blast
    from "1.IH" [OF run] np show False
      by simp
  qed
qed

lemma spin_never_returns: "simulate spin_env ctl 1 () (pose_at 0 5) [] cmd_vel = None"
proof (cases "simulate spin_env ctl 1 () (pose_at 0 5) [] cmd_vel")
  case None
  then show ?thesis .
next
  case (Some r)
  from spin_invariant [OF Some] show ?thesis
    by simp
qed

text \<open>
  C9 (as the code has it). The time increment is \<open>resolution / vel_x\<close> with no test of
  \<open>vel_x\<close>: whenever \<^verbatim>\<open>approach\<close> answers a zero \<open>vel_x\<close> at a step that has not converged,
  the step divides by zero. The rollout loop is left only by convergence, by a rejection
  of the last simulated pose, by a failure of \<^verbatim>\<open>approach\<close>, or at that division. It has
  no bound on its iterations: for every \<open>n\<close> there is a target reached after exactly \<open>n\<close>
  steps, and there is a scene in which the loop never ends.
\<close>

theorem rollout_exits:
  "(approach e ctl (position_x (fst (rollout_error pose path)))
       (position_y (fst (rollout_error pose path))) (snd (rollout_error pose path))
       = Some (0, vel_th)
     \<and> \<not> (path \<noteq> [] \<and> hypot (position_x (fst (rollout_error pose path)))
                           (position_y (fst (rollout_error pose path))) < res)
    \<longrightarrow> generate_next_pose e res path 0 vel_th = None
      \<and> simulate e ctl res base_to_odom pose path cmd_vel =
          Some (DivisionByZero, path,
            if path = [] then cmd_vel\<lparr>linear_x := 0, angular_z := vel_th\<rparr> else cmd_vel))
   \<and> (simulate e ctl res base_to_odom pose path cmd_vel = Some (x, path', cmd')
    \<longrightarrow> left_by e ctl res base_to_odom pose path' x)
   \<and> (0 < n
    \<longrightarrow> (\<exists>path cmd. simulate open_env ctl 1 () (pose_at (real n + 1 / 2) 0) [] still
            = Some (Converged, path, cmd) \<and> length path = n))
   \<and> simulate spin_env ctl 1 () (pose_at 0 5) [] cmd_vel = None"
proof (intro conjI impI)
  assume a: "approach e ctl (position_x (fst (rollout_error pose path)))
       (position_y (fst (rollout_error pose path))) (snd (rollout_error pose path))
       = Some (0, vel_th)
     \<and> \<not> (path \<noteq> [] \<and> hypot (position_x (fst (rollout_error pose path)))
                           (position_y (fst (rollout_error pose path))) < res)"
  show "generate_next_pose e res path 0 vel_th = None"
    by (simp add: generate_next_pose_None)
  show "simulate e ctl res base_to_odom pose path cmd_vel =
          Some (DivisionByZero, path,
            if path = [] then cmd_vel\<lparr>linear_x := 0, angular_z := vel_th\<rparr> else cmd_vel)"
    using a by (intro simulate_divides [of pose path "fst (rollout_error pose path)"
          "snd (rollout_error pose path)"]) simp_all
next
  assume "simulate e ctl res base_to_odom pose path cmd_vel = Some (x, path', cmd')"
  from simulate_left_by [OF this] show "left_by e ctl res base_to_odom pose path' x"
    by simp
next
  assume "0 < n"
  then show "\<exists>path cmd. simulate open_env ctl 1 () (pose_at (real n + 1 / 2) 0) [] still
            = Some (Converged, path, cmd) \<and> length path = n"
    by (rule march_from_origin)
next
  show "simulate spin_env ctl 1 () (pose_at 0 5) [] cmd_vel = None"
    by (rule spin_never_returns)
qed

text \<open>
  The loop is also left when \<^verbatim>\<open>approach\<close> fails: in the first iteration, with no pose
  simulated, it has neither converged nor been rejected.
\<close>

theorem rollout_exits_counterexample:
  "simulate failing_env (the_controller sample_state) (resolution sample_state) ()
     (pose_at (1 / 2) 0) [] still = Some (ApproachFailed, [], still)"
  by (rule simulate_approach_fails) (simp add: failing_env_simps)

text \<open>
  A steering law that answers \<open>(0, 1)\<close> divides by zero in the first iteration; a target
  three and a half units ahead on the free costmap is reached after three steps.
\<close>

theorem rollout_exits_witness:
  "approach stalled_env (the_controller sample_state)
       (position_x (fst (rollout_error (pose_at (1 / 2) 0) [])))
       (position_y (fst (rollout_error (pose_at (1 / 2) 0) [])))
       (snd (rollout_error (pose_at (1 / 2) 0) [])) = Some (0, 1)
   \<and> simulate stalled_env (the_controller sample_state) 1 () (pose_at (1 / 2) 0) [] still
       = Some (DivisionByZero, [], still\<lparr>linear_x := 0, angular_z := 1\<rparr>)
   \<and> left_by stalled_env (the_controller sample_state) 1 () (pose_at (1 / 2) 0) [] DivisionByZero
   \<and> (0::nat) < 3
   \<and> (\<exists>path cmd. simulate open_env (the_controller sample_state) 1 () (pose_at (real 3 + 1 / 2) 0)
          [] still = Some (Converged, path, cmd) \<and> length path = 3)"
proof -
  have h: "approach stalled_env (the_controller sample_state)
       (position_x (fst (rollout_error (pose_at (1 / 2) 0) [])))
       (position_y (fst (rollout_error (pose_at (1 / 2) 0) [])))
       (snd (rollout_error (pose_at (1 / 2) 0) [])) = Some (0, 1)"
    by (simp add: stalled_env_def sample_env_def)
  note inst = rollout_exits [where e = stalled_env and ctl = "the_controller sample_state"
      and pose = "pose_at (1 / 2) 0" and path = "[]" and vel_th = 1 and res = 1
      and base_to_odom = "()" and cmd_vel = still and x = DivisionByZero and path' = "[]"
      and cmd' = "still\<lparr>linear_x := 0, angular_z := 1\<rparr>" and n = 3]
  have d: "simulate stalled_env (the_controller sample_state) 1 () (pose_at (1 / 2) 0) [] still
       = Some (DivisionByZero, [], still\<lparr>linear_x := 0, angular_z := 1\<rparr>)"
    using inst h by simp
  have l: "left_by stalled_env (the_controller sample_state) 1 () (pose_at (1 / 2) 0) []
      DivisionByZero"
    using inst d by blast
  have m: "\<exists>path cmd. simulate open_env (the_controller sample_state) 1 () (pose_at (real 3 + 1 / 2) 0)
          [] still = Some (Converged, path, cmd) \<and> length path = 3"
    using inst by simp
  show ?thesis
    using h d l m by simp
qed

end
